theory Spec2Isabelle
  imports Main "HOL-Library.Word"
begin

section \<open>Python values, exceptions and outcomes\<close>

text \<open>
  The module \<^verbatim>\<open>lenskit/sharing/__init__.py\<close> is embedded function by function.
  A Python value is \<open>None\<close>, a string, or an object of the application (a model);
  the tests \<^verbatim>\<open>x is None\<close> of the source are tests for \<open>PyNone\<close>.
\<close>

datatype 'a py = PyNone | PyStr string | PyObj 'a

text \<open>
  The exceptions the module can meet. In Python 3 \<^verbatim>\<open>IOError\<close> is an alias of
  \<^verbatim>\<open>OSError\<close>, so \<^verbatim>\<open>except IOError\<close> catches the whole \<open>OSError\<close>
  family and nothing else.
\<close>

datatype exn =
    OSError
  | FileNotFoundError
  | FileExistsError
  | PermissionError
  | BufferError
  | ValueError
  | TypeError
  | IndexError
  | AssertionError
  | PicklingError
  | ImportError string
  | AttributeError string
  | NameError string

fun is_IOError :: "exn \<Rightarrow> bool" where
  "is_IOError OSError = True"
| "is_IOError FileNotFoundError = True"
| "is_IOError FileExistsError = True"
| "is_IOError PermissionError = True"
| "is_IOError _ = False"

text \<open>A call either returns a value or raises; the state it leaves is returned beside it.\<close>

datatype 'r outcome = Return 'r | Raise exn

text \<open>
  What the process emits: records sent to the module logger \<^verbatim>\<open>_log\<close> and warnings
  issued through \<^verbatim>\<open>warnings.warn\<close> (with their \<^verbatim>\<open>stacklevel\<close>).
\<close>

datatype event =
    LogInfo
  | LogDebug
  | LogWarn exn
  | ResourceWarning nat

section \<open>SharedObject\<close>

text \<open>
  \<^verbatim>\<open>sys.getrefcount(x)\<close> counts the references to \<open>x\<close> held anywhere, plus the one
  its own argument holds for the time of the call; \<open>refs\<close> is the number of references
  held elsewhere when it is called.
\<close>

definition getrefcount :: "nat \<Rightarrow> nat" where
  "getrefcount refs = Suc refs"

text \<open>
  The instance dictionary of a \<^verbatim>\<open>SharedObject\<close>. \<open>so_object = None\<close> means that the
  attribute \<^verbatim>\<open>object\<close> has been deleted (the class has no attribute of that name);
  \<open>so_rc = None\<close> is the class default \<^verbatim>\<open>_rc = None\<close>; \<open>so_exiting = None\<close> means
  that the instance has no \<^verbatim>\<open>_exiting\<close> of its own and reads the class default
  \<^verbatim>\<open>False\<close>.
\<close>

record 'a shared_object =
  so_object :: "'a py option"
  so_rc :: "nat option"
  so_exiting :: "bool option"

definition SharedObject :: "'a py \<Rightarrow> 'a shared_object" where
  "SharedObject obj = \<lparr>so_object = Some obj, so_rc = None, so_exiting = None\<rparr>"

text \<open>Truth value of \<^verbatim>\<open>self._rc\<close>: \<open>None\<close> and \<open>0\<close> are false.\<close>

fun rc_truthy :: "nat option \<Rightarrow> bool" where
  "rc_truthy None = False"
| "rc_truthy (Some n) = (n \<noteq> 0)"

fun exiting_value :: "bool option \<Rightarrow> bool" where
  "exiting_value None = False"
| "exiting_value (Some b) = b"

text \<open>
  \<^verbatim>\<open>SharedObject.release\<close>. Reading a deleted \<^verbatim>\<open>self.object\<close> raises
  \<^verbatim>\<open>AttributeError\<close>; a wrapped \<open>None\<close> skips the whole body.
\<close>

definition SharedObject_release ::
  "nat \<Rightarrow> 'a shared_object \<Rightarrow> event list \<Rightarrow> unit outcome \<times> 'a shared_object \<times> event list" where
  "SharedObject_release refs self evs =
     (case so_object self of
        None \<Rightarrow> (Raise (AttributeError ''object''), self, evs)
      | Some PyNone \<Rightarrow> (Return (), self, evs)
      | Some obj \<Rightarrow>
          (let rc = getrefcount refs;
               evs' = (if rc_truthy (so_rc self) \<and> rc > the (so_rc self)
                       then evs @ [LogDebug,
                                   ResourceWarning (if exiting_value (so_exiting self) then 3 else 2)]
                       else evs)
           in (Return (), self\<lparr>so_object := None\<rparr>, evs')))"

text \<open>\<^verbatim>\<open>SharedObject.__enter__\<close>: records the baseline and returns the wrapped object.\<close>

definition SharedObject_enter ::
  "nat \<Rightarrow> 'a shared_object \<Rightarrow> 'a py outcome \<times> 'a shared_object" where
  "SharedObject_enter refs self =
     (case so_object self of
        None \<Rightarrow> (Raise (AttributeError ''object''), self)
      | Some obj \<Rightarrow> (Return obj, self\<lparr>so_rc := Some (getrefcount refs)\<rparr>))"

text \<open>
  \<^verbatim>\<open>SharedObject.__exit__\<close>: sets \<^verbatim>\<open>_exiting\<close>, releases, and deletes the instance's
  \<^verbatim>\<open>_exiting\<close> in the \<^verbatim>\<open>finally\<close> clause whether \<^verbatim>\<open>release\<close> raised or not.
\<close>

definition SharedObject_exit ::
  "nat \<Rightarrow> 'a shared_object \<Rightarrow> event list \<Rightarrow> unit outcome \<times> 'a shared_object \<times> event list" where
  "SharedObject_exit refs self evs =
     (case SharedObject_release refs (self\<lparr>so_exiting := Some True\<rparr>) evs of
        (r, self', evs') \<Rightarrow> (r, self'\<lparr>so_exiting := None\<rparr>, evs'))"


section \<open>Model stores and the activation stack\<close>

text \<open>
  Stores are compared by identity (\<^verbatim>\<open>is\<close>), so a store is named by a number. The state
  of one thread holds the instance attribute \<^verbatim>\<open>_act_count\<close> of every store (class
  default \<open>0\<close>), the thread-local list \<^verbatim>\<open>_store_state.active\<close> (created empty on first
  use), and the calls made so far to the hooks \<^verbatim>\<open>init()\<close> and \<^verbatim>\<open>shutdown()\<close>, whose
  bodies in the base class are empty.
\<close>

type_synonym sid = nat

datatype hook_call = Init sid | Shutdown sid

record thread_state =
  act_count :: "sid \<Rightarrow> int"
  active :: "sid list"
  calls :: "hook_call list"

text \<open>\<^verbatim>\<open>BaseModelStore.__enter__\<close>\<close>

definition BaseModelStore_enter :: "sid \<Rightarrow> thread_state \<Rightarrow> sid outcome \<times> thread_state" where
  "BaseModelStore_enter self st =
     (let st1 = (if act_count st self = 0 then st\<lparr>calls := calls st @ [Init self]\<rparr> else st);
          st2 = st1\<lparr>act_count := (act_count st1)(self := act_count st1 self + 1)\<rparr>;
          st3 = st2\<lparr>active := active st2 @ [self]\<rparr>
      in (Return self, st3))"

text \<open>
  \<^verbatim>\<open>BaseModelStore.__exit__\<close>. The count is decremented and \<^verbatim>\<open>shutdown()\<close> called
  before the top of the stack is looked at; \<^verbatim>\<open>_active_stores()[-1]\<close> raises
  \<^verbatim>\<open>IndexError\<close> on an empty list, and the \<^verbatim>\<open>assert\<close> raises \<^verbatim>\<open>AssertionError\<close>
  when the top is another store (assertions are enabled: the interpreter does not run
  with \<^verbatim>\<open>-O\<close>).
\<close>

definition BaseModelStore_exit :: "sid \<Rightarrow> thread_state \<Rightarrow> unit outcome \<times> thread_state" where
  "BaseModelStore_exit self st =
     (let st1 = st\<lparr>act_count := (act_count st)(self := act_count st self - 1)\<rparr>;
          st2 = (if act_count st1 self = 0 then st1\<lparr>calls := calls st1 @ [Shutdown self]\<rparr> else st1)
      in if active st2 = [] then (Raise IndexError, st2)
         else if last (active st2) \<noteq> self then (Raise AssertionError, st2)
         else (Return (), st2\<lparr>active := butlast (active st2)\<rparr>))"

text \<open>A sequence of entries and exits of one store; an exception ends the sequence.\<close>

datatype store_op = Enter | Exit

fun run_store :: "sid \<Rightarrow> store_op list \<Rightarrow> thread_state \<Rightarrow> unit outcome \<times> thread_state" where
  "run_store self [] st = (Return (), st)"
| "run_store self (Enter # ops) st =
     (case BaseModelStore_enter self st of
        (Return _, st') \<Rightarrow> run_store self ops st'
      | (Raise e, st') \<Rightarrow> (Raise e, st'))"
| "run_store self (Exit # ops) st =
     (case BaseModelStore_exit self st of
        (Return _, st') \<Rightarrow> run_store self ops st'
      | (Raise e, st') \<Rightarrow> (Raise e, st'))"

text \<open>A sequence is nested when no prefix of it exits more often than it enters.\<close>

fun nested :: "nat \<Rightarrow> store_op list \<Rightarrow> bool" where
  "nested d [] = True"
| "nested d (Enter # ops) = nested (Suc d) ops"
| "nested 0 (Exit # ops) = False"
| "nested (Suc d) (Exit # ops) = nested d ops"

text \<open>
  The hook calls the specification asks for, written from its words and not from the
  code: walking the sequence with the activation count \<open>c\<close>, one \<open>init()\<close> on each
  step that takes the count from zero to nonzero, one \<open>shutdown()\<close> on each step that
  takes it from nonzero to zero, nothing on the other steps.
\<close>

fun count_after :: "int \<Rightarrow> store_op \<Rightarrow> int" where
  "count_after c Enter = c + 1"
| "count_after c Exit = c - 1"

definition transition_calls :: "sid \<Rightarrow> int \<Rightarrow> int \<Rightarrow> hook_call list" where
  "transition_calls self c c' =
     (if c = 0 \<and> c' \<noteq> 0 then [Init self]
      else if c \<noteq> 0 \<and> c' = 0 then [Shutdown self]
      else [])"

fun spec_calls :: "sid \<Rightarrow> int \<Rightarrow> store_op list \<Rightarrow> hook_call list" where
  "spec_calls self c [] = []"
| "spec_calls self c (x # ops) =
     transition_calls self c (count_after c x) @ spec_calls self (count_after c x) ops"

subsection \<open>Loading a serialized model into a store\<close>

text \<open>
  The names bound at module level when \<^verbatim>\<open>put_serialized\<close> runs (imports, assignments,
  functions and classes of the module, in the order of the file; importing the submodules
  \<^verbatim>\<open>.file\<close> and \<^verbatim>\<open>.sharedmem\<close> also binds their names), and the local names of
  \<^verbatim>\<open>put_serialized\<close>. A name that is in neither list, and is not a builtin, raises
  \<^verbatim>\<open>NameError\<close> when it is read; no builtin is called \<^verbatim>\<open>bpk\<close>.
\<close>

definition module_globals :: "string list" where
  "module_globals =
     [''sys'', ''os'', ''pathlib'', ''warnings'', ''abstractmethod'', ''ABC'', ''contextmanager'',
      ''tempfile'', ''threading'', ''logging'', ''pickle'', ''shm'', ''binpickle'',
      ''_log'', ''_store_state'', ''_save_mode'', ''_active_stores'', ''sharing_mode'',
      ''in_share_context'', ''PersistedModel'', ''persist'', ''persist_binpickle'',
      ''BPKPersisted'', ''persist_shm'', ''SHMPersisted'', ''get_store'', ''BaseModelClient'',
      ''SharedObject'', ''BaseModelStore'', ''NoopModelStore'', ''file'', ''FileModelStore'',
      ''sharedmem'', ''SHMModelStore'']"

definition put_serialized_locals :: "string list" where
  "put_serialized_locals = [''self'', ''path'', ''binpickle'', ''mf'']"

definition name_bound :: "string \<Rightarrow> bool" where
  "name_bound n = (n \<in> set put_serialized_locals \<or> n \<in> set module_globals)"

text \<open>
  \<^verbatim>\<open>BaseModelStore.put_serialized\<close>. The abstract \<^verbatim>\<open>put_model\<close> of the store and the
  two deserializers are parameters: \<open>bpk_load\<close> is what the attribute \<^verbatim>\<open>load\<close> of the
  object named \<^verbatim>\<open>bpk\<close> would do, \<open>pickle_load\<close> is \<^verbatim>\<open>open(path, 'rb')\<close> followed by
  \<^verbatim>\<open>pickle.load\<close>. The first branch has no \<^verbatim>\<open>return\<close>: it returns \<open>None\<close>.
\<close>

definition BaseModelStore_put_serialized ::
  "('a py \<Rightarrow> 's \<Rightarrow> 'a py outcome \<times> 's) \<Rightarrow> (string \<Rightarrow> exn + 'a py) \<Rightarrow> (string \<Rightarrow> exn + 'a py)
     \<Rightarrow> string \<Rightarrow> bool \<Rightarrow> 's \<Rightarrow> 'a py outcome \<times> 's" where
  "BaseModelStore_put_serialized put_model bpk_load pickle_load path binpickle st =
     (if binpickle then
        (if name_bound ''bpk'' then
           (case bpk_load path of
              Inl e \<Rightarrow> (Raise e, st)
            | Inr m \<Rightarrow>
                (case put_model m st of
                   (Return _, st') \<Rightarrow> (Return PyNone, st')
                 | (Raise e, st') \<Rightarrow> (Raise e, st')))
         else (Raise (NameError ''bpk''), st))
      else
        (case pickle_load path of
           Inl e \<Rightarrow> (Raise e, st)
         | Inr m \<Rightarrow> put_model m st))"

text \<open>\<^verbatim>\<open>NoopModelStore.put_model\<close>: the model is its own key.\<close>

definition NoopModelStore_put_model :: "'a py \<Rightarrow> 's \<Rightarrow> 'a py outcome \<times> 's" where
  "NoopModelStore_put_model model st = (Return model, st)"

text \<open>\<^verbatim>\<open>NoopModelStore.get_model\<close>\<close>

definition NoopModelStore_get_model :: "'a py \<Rightarrow> 'a shared_object" where
  "NoopModelStore_get_model key = SharedObject key"


section \<open>The world outside the module\<close>

text \<open>
  The persistence code acts on the file system, on the named shared-memory segments of
  the operating system, on the thread-local \<^verbatim>\<open>_store_state.mode\<close> and on the logger.
  \<^item> \<open>fs\<close> maps a path to the content of the file there;
  \<^item> \<open>shm_segs\<close> maps a segment name to the bytes of the segment;
  \<^item> \<open>names\<close> is the sequence of random name tokens the process will draw for temporary
    files and new segments; a drawn token that is in use is skipped, and an exhausted
    sequence is reported as \<^verbatim>\<open>FileExistsError\<close> (what \<^verbatim>\<open>mkstemp\<close> does after its last
    attempt);
  \<^item> \<open>faults\<close> tells, for each system operation of a teardown, whether the operating
    system makes it fail and with what exception;
  \<^item> \<open>mode\<close> is the attribute \<^verbatim>\<open>_store_state.mode\<close>, absent until first set;
  \<^item> \<open>evlog\<close> is what has been logged so far.
\<close>

type_synonym bytes = "8 word list"

datatype path = Path (dirname: string) (basename: string)

datatype sysop = CloseFile path | UnlinkFile path | CloseSeg string | UnlinkSeg string

record world =
  fs :: "path \<Rightarrow> bytes option"
  shm_segs :: "string \<Rightarrow> bytes option"
  names :: "string list"
  faults :: "sysop \<Rightarrow> exn option"
  mode :: "string option"
  evlog :: "event list"

text \<open>
  The platform: the environment variables, whether
  \<^verbatim>\<open>import multiprocessing.shared_memory\<close> succeeded (\<^verbatim>\<open>shm is not None\<close>), the
  directory \<^verbatim>\<open>tempfile.gettempdir()\<close>, and the number of bytes by which the operating
  system enlarges a new segment of a requested size (rounding to its page size).
\<close>

record platform =
  environ :: "string \<Rightarrow> string option"
  shm_available :: bool
  gettempdir :: string
  seg_slack :: "nat \<Rightarrow> nat"

text \<open>
  The serializers, which are libraries outside the repository, are parameters.
  \<^item> \<open>bp_dump share model\<close>: the bytes \<^verbatim>\<open>BinPickler.mappable(path).dump(model)\<close> writes,
    or the exception it raises; \<open>share\<close> is \<^verbatim>\<open>in_share_context()\<close> at the time of the
    call, which the pickling hooks of a model may consult;
  \<^item> \<open>bp_load\<close>: \<^verbatim>\<open>BinPickleFile(path, direct=True)\<close> on a file of these bytes,
    followed by \<^verbatim>\<open>.load()\<close> on the object it made: the constructor raises, or
    \<^verbatim>\<open>load\<close> raises, or \<^verbatim>\<open>load\<close> returns the model;
  \<^item> \<open>pk_dumps share model\<close>: \<^verbatim>\<open>pickle.dumps(model, protocol=5, buffer_callback=cb)\<close>:
    the out-of-band buffers handed to the callback, in order, and then the pickle bytes
    or an exception;
  \<^item> \<open>pk_loads data buffers\<close>: \<^verbatim>\<open>pickle.loads(data, buffers=buffers)\<close>.
\<close>

datatype 'a bp_read = OpenRaises exn | LoadRaises exn | Loaded "'a py"

record 'a codec =
  bp_dump :: "bool \<Rightarrow> 'a py \<Rightarrow> exn + bytes"
  bp_load :: "bytes \<Rightarrow> 'a bp_read"
  pk_dumps :: "bool \<Rightarrow> 'a py \<Rightarrow> bytes list \<times> (exn + bytes)"
  pk_loads :: "bytes \<Rightarrow> bytes list \<Rightarrow> exn + 'a py"

subsection \<open>The sharing-mode flag\<close>

definition save_mode :: "world \<Rightarrow> string" where
  "save_mode w = (case mode w of None \<Rightarrow> ''save'' | Some m \<Rightarrow> m)"

definition in_share_context :: "world \<Rightarrow> bool" where
  "in_share_context w = (save_mode w = ''share'')"

text \<open>
  The context manager \<^verbatim>\<open>sharing_mode()\<close> around a body: the old mode is restored in the
  \<^verbatim>\<open>finally\<close> clause, whether the body returned or raised.
\<close>

definition sharing_mode :: "(world \<Rightarrow> 'r outcome \<times> world) \<Rightarrow> world \<Rightarrow> 'r outcome \<times> world" where
  "sharing_mode body w =
     (let old = save_mode w in
      case body (w\<lparr>mode := Some ''share''\<rparr>) of
        (r, w') \<Rightarrow> (r, w'\<lparr>mode := Some old\<rparr>))"

subsection \<open>Temporary files and shared-memory segments\<close>

fun draw_name :: "(string \<Rightarrow> bool) \<Rightarrow> string list \<Rightarrow> (string \<times> string list) option" where
  "draw_name used [] = None"
| "draw_name used (t # ts) = (if used t then draw_name used ts else Some (t, ts))"

text \<open>\<^verbatim>\<open>tempfile.mkstemp(suffix, prefix, dir)\<close>: creates an empty file under a name not in use.\<close>

definition mkstemp :: "string \<Rightarrow> string \<Rightarrow> string \<Rightarrow> world \<Rightarrow> path outcome \<times> world" where
  "mkstemp suffix prefix dir w =
     (case draw_name (\<lambda>t. fs w (Path dir (prefix @ t @ suffix)) \<noteq> None) (names w) of
        None \<Rightarrow> (Raise FileExistsError, w\<lparr>names := []\<rparr>)
      | Some (t, ts) \<Rightarrow>
          (Return (Path dir (prefix @ t @ suffix)),
           w\<lparr>fs := (fs w)(Path dir (prefix @ t @ suffix) \<mapsto> []), names := ts\<rparr>))"

text \<open>
  \<^verbatim>\<open>shm.SharedMemory(create=True, size=n)\<close>: a size of zero is refused with
  \<^verbatim>\<open>ValueError\<close>; the new segment has a fresh name, at least \<open>n\<close> bytes, all zero. A
  block object is named by its segment.
\<close>

definition SharedMemory_create :: "platform \<Rightarrow> nat \<Rightarrow> world \<Rightarrow> string outcome \<times> world" where
  "SharedMemory_create p n w =
     (if n = 0 then (Raise ValueError, w)
      else case draw_name (\<lambda>t. shm_segs w t \<noteq> None) (names w) of
        None \<Rightarrow> (Raise FileExistsError, w\<lparr>names := []\<rparr>)
      | Some (t, ts) \<Rightarrow>
          (Return t, w\<lparr>shm_segs := (shm_segs w)(t \<mapsto> replicate (n + seg_slack p n) 0),
                       names := ts\<rparr>))"

text \<open>\<^verbatim>\<open>block.buf[:len(ba)] = ba\<close>\<close>

definition blit :: "string \<Rightarrow> bytes \<Rightarrow> world \<Rightarrow> world" where
  "blit name ba w =
     w\<lparr>shm_segs := (shm_segs w)(name := map_option (\<lambda>buf. ba @ drop (length ba) buf) (shm_segs w name))\<rparr>"

text \<open>\<^verbatim>\<open>buf.close()\<close> and \<^verbatim>\<open>buf.unlink()\<close> of a block.\<close>

definition SharedMemory_close :: "string \<Rightarrow> world \<Rightarrow> unit outcome \<times> world" where
  "SharedMemory_close name w =
     (case faults w (CloseSeg name) of Some e \<Rightarrow> (Raise e, w) | None \<Rightarrow> (Return (), w))"

definition SharedMemory_unlink :: "string \<Rightarrow> world \<Rightarrow> unit outcome \<times> world" where
  "SharedMemory_unlink name w =
     (case faults w (UnlinkSeg name) of
        Some e \<Rightarrow> (Raise e, w)
      | None \<Rightarrow>
          (case shm_segs w name of
             None \<Rightarrow> (Raise FileNotFoundError, w)
           | Some _ \<Rightarrow> (Return (), w\<lparr>shm_segs := (shm_segs w)(name := None)\<rparr>)))"

text \<open>\<^verbatim>\<open>path.unlink()\<close>\<close>

definition path_unlink :: "path \<Rightarrow> world \<Rightarrow> unit outcome \<times> world" where
  "path_unlink f w =
     (case faults w (UnlinkFile f) of
        Some e \<Rightarrow> (Raise e, w)
      | None \<Rightarrow>
          (case fs w f of
             None \<Rightarrow> (Raise FileNotFoundError, w)
           | Some _ \<Rightarrow> (Return (), w\<lparr>fs := (fs w)(f := None)\<rparr>)))"

section \<open>File-backed persistence\<close>

text \<open>
  The instance dictionary of a \<^verbatim>\<open>BPKPersisted\<close>. The open \<^verbatim>\<open>BinPickleFile\<close> in
  \<^verbatim>\<open>_bpk_file\<close> is named by the path it maps.
\<close>

record 'a bpk_persisted =
  bpk_path :: path
  bpk_is_owner :: bool
  bpk_file :: "path option"
  bpk_model :: "'a py"

definition BPKPersisted :: "path \<Rightarrow> 'a bpk_persisted" where
  "BPKPersisted f = \<lparr>bpk_path = f, bpk_is_owner = True, bpk_file = None, bpk_model = PyNone\<rparr>"

definition persist_binpickle ::
  "'a codec \<Rightarrow> platform \<Rightarrow> 'a py \<Rightarrow> string option \<Rightarrow> world \<Rightarrow> 'a bpk_persisted outcome \<times> world" where
  "persist_binpickle c p model dir w =
     (case mkstemp ''.bpk'' ''lkpy-'' (case dir of None \<Rightarrow> gettempdir p | Some d \<Rightarrow> d) w of
        (Raise e, w1) \<Rightarrow> (Raise e, w1)
      | (Return f, w1) \<Rightarrow>
          (case sharing_mode
                  (\<lambda>v. case bp_dump c (in_share_context v) model of
                          Inl e \<Rightarrow> (Raise e, v)
                        | Inr bs \<Rightarrow> (Return (), v\<lparr>fs := (fs v)(f \<mapsto> bs)\<rparr>))
                  (w1\<lparr>evlog := evlog w1 @ [LogInfo]\<rparr>) of
             (Raise e, w2) \<Rightarrow> (Raise e, w2)
           | (Return _, w2) \<Rightarrow> (Return (BPKPersisted f), w2)))"

text \<open>
  \<^verbatim>\<open>BPKPersisted.get\<close>. When the constructor of \<^verbatim>\<open>BinPickleFile\<close> raises (no such
  file, or bytes it refuses), nothing has been assigned and \<^verbatim>\<open>_bpk_file\<close> stays
  \<open>None\<close>; when \<^verbatim>\<open>load()\<close> raises, \<^verbatim>\<open>_bpk_file\<close> has been assigned and
  \<^verbatim>\<open>_model\<close> has not.
\<close>

definition BPKPersisted_get ::
  "'a codec \<Rightarrow> 'a bpk_persisted \<Rightarrow> world \<Rightarrow> 'a py outcome \<times> 'a bpk_persisted \<times> world" where
  "BPKPersisted_get c self w =
     (if bpk_file self = None then
        (case fs w (bpk_path self) of
           None \<Rightarrow> (Raise FileNotFoundError, self, w)
         | Some bs \<Rightarrow>
             (case bp_load c bs of
                OpenRaises e \<Rightarrow> (Raise e, self, w)
              | LoadRaises e \<Rightarrow> (Raise e, self\<lparr>bpk_file := Some (bpk_path self)\<rparr>, w)
              | Loaded m \<Rightarrow>
                  (Return m, self\<lparr>bpk_file := Some (bpk_path self), bpk_model := m\<rparr>, w)))
      else (Return (bpk_model self), self, w))"

text \<open>
  \<^verbatim>\<open>BPKPersisted.close\<close>, in its two steps. Closing the mapped file is inside
  \<^verbatim>\<open>try ... except IOError\<close>: an exception of the \<open>OSError\<close> family is logged as a
  warning, any other propagates before \<^verbatim>\<open>_bpk_file\<close> is reset. The unlinking of the
  path is outside any \<^verbatim>\<open>try\<close>.
\<close>

definition BPKPersisted_close_file ::
  "'a bpk_persisted \<Rightarrow> world \<Rightarrow> unit outcome \<times> 'a bpk_persisted \<times> world" where
  "BPKPersisted_close_file self w =
     (case bpk_file self of
        None \<Rightarrow> (Return (), self, w)
      | Some f \<Rightarrow>
          (case faults w (CloseFile f) of
             None \<Rightarrow> (Return (), self\<lparr>bpk_model := PyNone, bpk_file := None\<rparr>, w)
           | Some e \<Rightarrow>
               if is_IOError e
               then (Return (), self\<lparr>bpk_model := PyNone, bpk_file := None\<rparr>,
                     w\<lparr>evlog := evlog w @ [LogWarn e]\<rparr>)
               else (Raise e, self\<lparr>bpk_model := PyNone\<rparr>, w)))"

definition BPKPersisted_close ::
  "'a bpk_persisted \<Rightarrow> bool \<Rightarrow> world \<Rightarrow> unit outcome \<times> 'a bpk_persisted \<times> world" where
  "BPKPersisted_close self unlink w =
     (case BPKPersisted_close_file self w of
        (Raise e, self1, w1) \<Rightarrow> (Raise e, self1, w1)
      | (Return _, self1, w1) \<Rightarrow>
          if bpk_is_owner self1 \<and> unlink then
            (if bpk_model self1 \<noteq> PyNone then (Raise AssertionError, self1, w1)
             else case path_unlink (bpk_path self1) w1 of
                    (Raise e, w2) \<Rightarrow> (Raise e, self1, w2)
                  | (Return _, w2) \<Rightarrow> (Return (), self1\<lparr>bpk_is_owner := False\<rparr>, w2))
          else (Return (), self1, w1))"

text \<open>
  \<^verbatim>\<open>BPKPersisted.__getstate__\<close>: a copy of the instance dictionary with
  \<^verbatim>\<open>is_owner\<close> false. Unpickling, for a class with no \<^verbatim>\<open>__setstate__\<close>, makes an
  object whose dictionary is that state.
\<close>

definition BPKPersisted_getstate :: "'a bpk_persisted \<Rightarrow> 'a bpk_persisted" where
  "BPKPersisted_getstate self = self\<lparr>bpk_is_owner := False\<rparr>"

section \<open>Shared-memory persistence\<close>

text \<open>
  The instance dictionary of a \<^verbatim>\<open>SHMPersisted\<close>. \<open>shm_buffers = None\<close> means that the
  instance has no attribute \<^verbatim>\<open>buffers\<close> of its own and reads the class attribute
  \<^verbatim>\<open>[]\<close>; the class attribute \<^verbatim>\<open>_model = None\<close> reads like an instance attribute
  that is \<open>None\<close>.
\<close>

record 'a shm_persisted =
  shm_pickle_data :: bytes
  shm_buffer_specs :: "(string \<times> nat) list"
  shm_buffers :: "string list option"
  shm_is_owner :: bool
  shm_model :: "'a py"

definition SHMPersisted :: "bytes \<Rightarrow> (string \<times> nat) list \<Rightarrow> string list \<Rightarrow> 'a shm_persisted" where
  "SHMPersisted data buf_specs buffers =
     \<lparr>shm_pickle_data = data, shm_buffer_specs = buf_specs, shm_buffers = Some buffers,
      shm_is_owner = True, shm_model = PyNone\<rparr>"

text \<open>
  The callback \<^verbatim>\<open>buf_cb\<close> of \<^verbatim>\<open>persist_shm\<close>; the lists \<^verbatim>\<open>buffers\<close> and
  \<^verbatim>\<open>buf_keys\<close> of the enclosing function are passed in and returned.
\<close>

definition buf_cb ::
  "platform \<Rightarrow> bytes \<Rightarrow> string list \<times> (string \<times> nat) list \<Rightarrow> world
     \<Rightarrow> (string list \<times> (string \<times> nat) list) outcome \<times> world" where
  "buf_cb p ba acc w =
     (case SharedMemory_create p (length ba) w of
        (Raise e, w1) \<Rightarrow> (Raise e, w1)
      | (Return block, w1) \<Rightarrow>
          (Return (fst acc @ [block], snd acc @ [(block, length ba)]),
           blit block ba (w1\<lparr>evlog := evlog w1 @ [LogDebug]\<rparr>)))"

fun run_buf_cb ::
  "platform \<Rightarrow> bytes list \<Rightarrow> string list \<times> (string \<times> nat) list \<Rightarrow> world
     \<Rightarrow> (string list \<times> (string \<times> nat) list) outcome \<times> world" where
  "run_buf_cb p [] acc w = (Return acc, w)"
| "run_buf_cb p (ba # bas) acc w =
     (case buf_cb p ba acc w of
        (Raise e, w1) \<Rightarrow> (Raise e, w1)
      | (Return acc1, w1) \<Rightarrow> run_buf_cb p bas acc1 w1)"

definition persist_shm ::
  "'a codec \<Rightarrow> platform \<Rightarrow> 'a py \<Rightarrow> world \<Rightarrow> 'a shm_persisted outcome \<times> world" where
  "persist_shm c p model w =
     (if \<not> shm_available p then (Raise (ImportError ''multiprocessing.shared_memory''), w)
      else
        case sharing_mode
               (\<lambda>v. case pk_dumps c (in_share_context v) model of
                       (bufs, r) \<Rightarrow>
                         (case run_buf_cb p bufs ([], []) v of
                            (Raise e, v1) \<Rightarrow> (Raise e, v1)
                          | (Return acc, v1) \<Rightarrow>
                              (case r of
                                 Inl e \<Rightarrow> (Raise e, v1)
                               | Inr data \<Rightarrow>
                                   (Return (data, acc), v1\<lparr>evlog := evlog v1 @ [LogInfo]\<rparr>))))
               w of
          (Raise e, w1) \<Rightarrow> (Raise e, w1)
        | (Return (data, buffers, buf_keys), w1) \<Rightarrow>
            (Return (SHMPersisted data buf_keys buffers), w1))"

text \<open>
  The loop of \<^verbatim>\<open>SHMPersisted.get\<close>: attaches every recorded segment by name and
  takes the first \<open>bs\<close> bytes of each; returns the views and the blocks.
\<close>

fun attach_all ::
  "platform \<Rightarrow> (string \<times> nat) list \<Rightarrow> world \<Rightarrow> (bytes list \<times> string list) outcome \<times> world" where
  "attach_all p [] w = (Return ([], []), w)"
| "attach_all p ((bn, bs) # specs) w =
     (if \<not> shm_available p then (Raise (AttributeError ''SharedMemory''), w)
      else case shm_segs w bn of
        None \<Rightarrow> (Raise FileNotFoundError, w)
      | Some buf \<Rightarrow>
          (case attach_all p specs (w\<lparr>evlog := evlog w @ [LogDebug]\<rparr>) of
             (Raise e, w1) \<Rightarrow> (Raise e, w1)
           | (Return (views, blocks), w1) \<Rightarrow> (Return (take bs buf # views, bn # blocks), w1)))"

definition SHMPersisted_get ::
  "'a codec \<Rightarrow> platform \<Rightarrow> 'a shm_persisted \<Rightarrow> world
     \<Rightarrow> 'a py outcome \<times> 'a shm_persisted \<times> world" where
  "SHMPersisted_get c p self w =
     (if shm_model self = PyNone then
        (case attach_all p (shm_buffer_specs self) w of
           (Raise e, w1) \<Rightarrow> (Raise e, self, w1)
         | (Return (views, blocks), w1) \<Rightarrow>
             (case pk_loads c (shm_pickle_data self) views of
                Inl e \<Rightarrow> (Raise e, self\<lparr>shm_buffers := Some blocks\<rparr>, w1)
              | Inr m \<Rightarrow> (Return m, self\<lparr>shm_buffers := Some blocks, shm_model := m\<rparr>, w1)))
      else (Return (shm_model self), self, w))"

text \<open>The loop of \<^verbatim>\<open>SHMPersisted.close\<close>: no \<^verbatim>\<open>try\<close> surrounds it.\<close>

fun release_all :: "string list \<Rightarrow> world \<Rightarrow> unit outcome \<times> world" where
  "release_all [] w = (Return (), w)"
| "release_all (buf # bufs) w =
     (case SharedMemory_close buf w of
        (Raise e, w1) \<Rightarrow> (Raise e, w1)
      | (Return _, w1) \<Rightarrow>
          (case SharedMemory_unlink buf w1 of
             (Raise e, w2) \<Rightarrow> (Raise e, w2)
           | (Return _, w2) \<Rightarrow> release_all bufs w2))"

text \<open>
  \<^verbatim>\<open>SHMPersisted.close\<close>; the parameter \<^verbatim>\<open>unlink\<close> is not read by the body.
  \<^verbatim>\<open>del self.buffers\<close> raises \<^verbatim>\<open>AttributeError\<close> when the instance has no such
  attribute of its own.
\<close>

definition SHMPersisted_close ::
  "'a shm_persisted \<Rightarrow> bool \<Rightarrow> world \<Rightarrow> unit outcome \<times> 'a shm_persisted \<times> world" where
  "SHMPersisted_close self unlink w =
     (let self1 = self\<lparr>shm_model := PyNone\<rparr> in
      if shm_is_owner self1 then
        (case release_all (case shm_buffers self1 of None \<Rightarrow> [] | Some bufs \<Rightarrow> bufs) w of
           (Raise e, w1) \<Rightarrow> (Raise e, self1, w1)
         | (Return _, w1) \<Rightarrow>
             (case shm_buffers self1 of
                None \<Rightarrow> (Raise (AttributeError ''buffers''), self1, w1)
              | Some _ \<Rightarrow> (Return (), self1\<lparr>shm_buffers := None, shm_is_owner := False\<rparr>, w1)))
      else (Return (), self1, w))"

text \<open>
  \<^verbatim>\<open>SHMPersisted.__getstate__\<close> returns a dictionary of three entries; unpickling
  makes an object with exactly these three instance attributes.
\<close>

record shm_state =
  st_pickle_data :: bytes
  st_buffer_specs :: "(string \<times> nat) list"
  st_is_owner :: bool

definition SHMPersisted_getstate :: "'a shm_persisted \<Rightarrow> shm_state" where
  "SHMPersisted_getstate self =
     \<lparr>st_pickle_data = shm_pickle_data self, st_buffer_specs = shm_buffer_specs self,
      st_is_owner = False\<rparr>"

definition SHMPersisted_setstate :: "shm_state \<Rightarrow> 'a shm_persisted" where
  "SHMPersisted_setstate d =
     \<lparr>shm_pickle_data = st_pickle_data d, shm_buffer_specs = st_buffer_specs d,
      shm_buffers = None, shm_is_owner = st_is_owner d, shm_model = PyNone\<rparr>"

section \<open>Persisted models of either kind, and the dispatcher\<close>

datatype 'a persisted = BPK "'a bpk_persisted" | SHM "'a shm_persisted"

fun PersistedModel_get ::
  "'a codec \<Rightarrow> platform \<Rightarrow> 'a persisted \<Rightarrow> world \<Rightarrow> 'a py outcome \<times> 'a persisted \<times> world" where
  "PersistedModel_get c p (BPK h) w =
     (case BPKPersisted_get c h w of (r, h', w') \<Rightarrow> (r, BPK h', w'))"
| "PersistedModel_get c p (SHM h) w =
     (case SHMPersisted_get c p h w of (r, h', w') \<Rightarrow> (r, SHM h', w'))"

fun PersistedModel_close ::
  "'a persisted \<Rightarrow> bool \<Rightarrow> world \<Rightarrow> unit outcome \<times> 'a persisted \<times> world" where
  "PersistedModel_close (BPK h) unlink w =
     (case BPKPersisted_close h unlink w of (r, h', w') \<Rightarrow> (r, BPK h', w'))"
| "PersistedModel_close (SHM h) unlink w =
     (case SHMPersisted_close h unlink w of (r, h', w') \<Rightarrow> (r, SHM h', w'))"

fun is_owner :: "'a persisted \<Rightarrow> bool" where
  "is_owner (BPK h) = bpk_is_owner h"
| "is_owner (SHM h) = shm_is_owner h"

text \<open>
  Sending a handle to another process. \<^verbatim>\<open>pickle\<close> calls \<^verbatim>\<open>__getstate__\<close> and
  pickles the values of the state it returns, in the order of the dictionary; the
  receiving process makes an object whose dictionary is the unpickled state.
  \<^item> The state of a \<^verbatim>\<open>BPKPersisted\<close> holds \<^verbatim>\<open>path\<close>, \<^verbatim>\<open>is_owner\<close>,
    \<^verbatim>\<open>_bpk_file\<close> and \<^verbatim>\<open>_model\<close>. An open \<^verbatim>\<open>BinPickleFile\<close> holds a memory
    map of the file and can not be pickled: \<^verbatim>\<open>TypeError\<close>. A cached model is pickled in
    band with the handle; \<open>tr\<close> is what pickling and unpickling an application object in
    band gives, a parameter as the serializers are.
  \<^item> The state of a \<^verbatim>\<open>SHMPersisted\<close> holds bytes, a list of pairs of a string and an
    integer, and a truth value, which always pickle.
\<close>

fun pickle_model :: "('a py \<Rightarrow> exn + 'a py) \<Rightarrow> 'a py \<Rightarrow> exn + 'a py" where
  "pickle_model tr PyNone = Inr PyNone"
| "pickle_model tr (PyStr s) = Inr (PyStr s)"
| "pickle_model tr (PyObj x) = tr (PyObj x)"

fun transmit :: "('a py \<Rightarrow> exn + 'a py) \<Rightarrow> 'a persisted \<Rightarrow> 'a persisted outcome" where
  "transmit tr (BPK h) =
     (case bpk_file (BPKPersisted_getstate h) of
        Some f \<Rightarrow> Raise TypeError
      | None \<Rightarrow>
          (case pickle_model tr (bpk_model (BPKPersisted_getstate h)) of
             Inl e \<Rightarrow> Raise e
           | Inr m \<Rightarrow> Return (BPK ((BPKPersisted_getstate h)\<lparr>bpk_model := m\<rparr>))))"
| "transmit tr (SHM h) = Return (SHM (SHMPersisted_setstate (SHMPersisted_getstate h)))"

text \<open>The two strategies, as the properties of the specification name them.\<close>

datatype strategy = FileBacked "string option" | SharedMemory

fun persist_with ::
  "'a codec \<Rightarrow> platform \<Rightarrow> strategy \<Rightarrow> 'a py \<Rightarrow> world \<Rightarrow> 'a persisted outcome \<times> world" where
  "persist_with c p (FileBacked dir) model w =
     (case persist_binpickle c p model dir w of
        (Raise e, w') \<Rightarrow> (Raise e, w')
      | (Return h, w') \<Rightarrow> (Return (BPK h), w'))"
| "persist_with c p SharedMemory model w =
     (case persist_shm c p model w of
        (Raise e, w') \<Rightarrow> (Raise e, w')
      | (Return h, w') \<Rightarrow> (Return (SHM h), w'))"

text \<open>\<^verbatim>\<open>persist(model)\<close>\<close>

definition persist ::
  "'a codec \<Rightarrow> platform \<Rightarrow> 'a py \<Rightarrow> world \<Rightarrow> 'a persisted outcome \<times> world" where
  "persist c p model w =
     (case environ p ''LK_TEMP_DIR'' of
        Some lk_tmp \<Rightarrow> persist_with c p (FileBacked (Some lk_tmp)) model w
      | None \<Rightarrow>
          if shm_available p then persist_with c p SharedMemory model w
          else persist_with c p (FileBacked None) model w)"

text \<open>
  A call of \<^verbatim>\<open>persist\<close> with positional and keyword arguments. Its signature is
  \<^verbatim>\<open>def persist(model)\<close>: one parameter, so any other shape of call raises
  \<^verbatim>\<open>TypeError\<close> before the body runs.
\<close>

definition persist_call ::
  "'a codec \<Rightarrow> platform \<Rightarrow> 'a py list \<Rightarrow> (string \<times> 'a py) list \<Rightarrow> world
     \<Rightarrow> 'a persisted outcome \<times> world" where
  "persist_call c p args kwargs w =
     (case (args, kwargs) of
        ([model], []) \<Rightarrow> persist c p model w
      | ([], [(k, model)]) \<Rightarrow> if k = ''model'' then persist c p model w else (Raise TypeError, w)
      | _ \<Rightarrow> (Raise TypeError, w))"


section \<open>A concrete codec, platform and world\<close>

text \<open>
  A small instance on which the definitions can be run: models are byte strings; the
  binpickle codec writes the bytes as they are; the pickle codec hands the bytes to the
  callback as one out-of-band buffer and leaves an empty pickle. Anything else is refused
  with \<^verbatim>\<open>PicklingError\<close>.
\<close>

definition example_codec :: "bytes codec" where
  "example_codec =
     \<lparr>bp_dump = (\<lambda>share m. case m of PyObj bs \<Rightarrow> Inr bs | _ \<Rightarrow> Inl PicklingError),
      bp_load = (\<lambda>bs. Loaded (PyObj bs)),
      pk_dumps = (\<lambda>share m. case m of PyObj bs \<Rightarrow> ([bs], Inr []) | _ \<Rightarrow> ([], Inl PicklingError)),
      pk_loads = (\<lambda>data bufs. case bufs of [b] \<Rightarrow> Inr (PyObj b) | _ \<Rightarrow> Inl ValueError)\<rparr>"

definition example_platform :: "string option \<Rightarrow> bool \<Rightarrow> platform" where
  "example_platform lk_tmp has_shm =
     \<lparr>environ = (\<lambda>k. if k = ''LK_TEMP_DIR'' then lk_tmp else None),
      shm_available = has_shm,
      gettempdir = ''/tmp'',
      seg_slack = (\<lambda>n. 2)\<rparr>"

definition example_world :: world where
  "example_world =
     \<lparr>fs = (\<lambda>_. None), shm_segs = (\<lambda>_. None), names = [''a'', ''b''],
      faults = (\<lambda>_. None), mode = None, evlog = []\<rparr>"


section \<open>What a process does with a handle\<close>

text \<open>The identifiers of the backing resource that a handle carries.\<close>

fun resource_ids :: "'a persisted \<Rightarrow> path + bytes \<times> (string \<times> nat) list" where
  "resource_ids (BPK h) = Inl (bpk_path h)"
| "resource_ids (SHM h) = Inr (shm_pickle_data h, shm_buffer_specs h)"

text \<open>
  Any sequence of calls of \<^verbatim>\<open>get()\<close> and \<^verbatim>\<open>close(unlink)\<close> on one handle; a caller
  may catch an exception and go on, so the sequence continues after a call that raised.
\<close>

datatype handle_op = Get | Close bool

fun use_handle ::
  "'a codec \<Rightarrow> platform \<Rightarrow> handle_op list \<Rightarrow> 'a persisted \<Rightarrow> world \<Rightarrow> 'a persisted \<times> world" where
  "use_handle c p [] h w = (h, w)"
| "use_handle c p (Get # ops) h w =
     (case PersistedModel_get c p h w of (_, h', w') \<Rightarrow> use_handle c p ops h' w')"
| "use_handle c p (Close unlink # ops) h w =
     (case PersistedModel_close h unlink w of (_, h', w') \<Rightarrow> use_handle c p ops h' w')"

text \<open>
  The serializers give back what they were given: loading what was dumped in sharing
  mode yields the model that was dumped.
\<close>

definition codec_roundtrip :: "'a codec \<Rightarrow> bool" where
  "codec_roundtrip c \<longleftrightarrow>
     (\<forall>model bs. bp_dump c True model = Inr bs \<longrightarrow> bp_load c bs = Loaded model)
   \<and> (\<forall>model bufs data. pk_dumps c True model = (bufs, Inr data)
          \<longrightarrow> pk_loads c data bufs = Inr model)"


section \<open>Properties of SharedObject\<close>

lemma release_deleted:
  "so_object self = None \<Longrightarrow>
   SharedObject_release refs self evs = (Raise (AttributeError ''object''), self, evs)"
  by (simp add: SharedObject_release_def)

lemma release_present:
  assumes "so_object self = Some obj" and "obj \<noteq> PyNone"
  shows "SharedObject_release refs self evs =
           (Return (), self\<lparr>so_object := None\<rparr>,
            if rc_truthy (so_rc self) \<and> getrefcount refs > the (so_rc self)
            then evs @ [LogDebug, ResourceWarning (if exiting_value (so_exiting self) then 3 else 2)]
            else evs)"
  using assms by (cases obj) (simp_all add: SharedObject_release_def Let_def)

text \<open>
  C10. \<^verbatim>\<open>release()\<close> is not idempotent: once a release (called directly, or through
  the exit of the context manager) has deleted the attribute \<^verbatim>\<open>object\<close> of a wrapper
  around an object other than \<open>None\<close>, the next call of \<^verbatim>\<open>release()\<close> raises
  \<^verbatim>\<open>AttributeError\<close> and changes nothing.
\<close>

theorem release_twice_raises:
  assumes "so_object self = Some obj" and "obj \<noteq> PyNone"
  shows "(\<exists>self' evs'.
            SharedObject_release r1 self evs = (Return (), self', evs')
          \<and> so_object self' = None
          \<and> SharedObject_release r2 self' evs' = (Raise (AttributeError ''object''), self', evs'))
       \<and> (\<exists>self' evs'.
            SharedObject_exit r1 self evs = (Return (), self', evs')
          \<and> so_object self' = None
          \<and> SharedObject_release r2 self' evs' = (Raise (AttributeError ''object''), self', evs')
          \<and> fst (SharedObject_exit r2 self' evs') = Raise (AttributeError ''object''))"
proof (intro conjI)
  let ?s1 = "self\<lparr>so_object := None\<rparr>"
  have first: "\<exists>evs'. SharedObject_release r1 self evs = (Return (), ?s1, evs')"
    using release_present [OF assms] by simp
  then obtain evs' where e: "SharedObject_release r1 self evs = (Return (), ?s1, evs')" ..
  have "SharedObject_release r2 ?s1 evs' = (Raise (AttributeError ''object''), ?s1, evs')"
    by (rule release_deleted) simp
  with e show "\<exists>self' evs'.
            SharedObject_release r1 self evs = (Return (), self', evs')
          \<and> so_object self' = None
          \<and> SharedObject_release r2 self' evs' = (Raise (AttributeError ''object''), self', evs')"
    by auto
next
  let ?s0 = "self\<lparr>so_exiting := Some True\<rparr>"
  let ?s1 = "self\<lparr>so_object := None, so_exiting := None\<rparr>"
  have pres: "so_object ?s0 = Some obj" using assms(1) by simp
  have "\<exists>evs'. SharedObject_release r1 ?s0 evs = (Return (), ?s0\<lparr>so_object := None\<rparr>, evs')"
    using release_present [OF pres assms(2)] by simp
  then obtain evs' where
    e: "SharedObject_release r1 ?s0 evs = (Return (), ?s0\<lparr>so_object := None\<rparr>, evs')" ..
  have x: "SharedObject_exit r1 self evs = (Return (), ?s1, evs')"
    using e by (simp add: SharedObject_exit_def)
  have r: "SharedObject_release r2 ?s1 evs' = (Raise (AttributeError ''object''), ?s1, evs')"
    by (rule release_deleted) simp
  have "SharedObject_release r2 (?s1\<lparr>so_exiting := Some True\<rparr>) evs'
          = (Raise (AttributeError ''object''), ?s1\<lparr>so_exiting := Some True\<rparr>, evs')"
    by (rule release_deleted) simp
  then have x2: "fst (SharedObject_exit r2 ?s1 evs') = Raise (AttributeError ''object'')"
    by (simp add: SharedObject_exit_def)
  from x r x2 show "\<exists>self' evs'.
            SharedObject_exit r1 self evs = (Return (), self', evs')
          \<and> so_object self' = None
          \<and> SharedObject_release r2 self' evs' = (Raise (AttributeError ''object''), self', evs')
          \<and> fst (SharedObject_exit r2 self' evs') = Raise (AttributeError ''object'')"
    by auto
qed

theorem release_twice_raises_witness:
  "SharedObject_release 1 (SharedObject (PyObj (7::nat))) [] =
     (Return (), \<lparr>so_object = None, so_rc = None, so_exiting = None\<rparr>, [])
   \<and> SharedObject_release 1 \<lparr>so_object = None, so_rc = None, so_exiting = None\<rparr> [] =
     (Raise (AttributeError ''object''), \<lparr>so_object = None, so_rc = None, so_exiting = None\<rparr>, [])"
  using release_twice_raises [of "SharedObject (PyObj (7::nat))" "PyObj 7" 1 "[]" 1]
  by (simp add: SharedObject_def SharedObject_release_def getrefcount_def)

text \<open>
  C8 fails for a wrapper around \<open>None\<close>: the guard \<^verbatim>\<open>if self.object is not None\<close>
  skips the whole body of \<^verbatim>\<open>release\<close>. The wrapper below was entered while one reference
  was held elsewhere and is released while five are: the count has risen above the baseline,
  and nothing is emitted, nor is the attribute deleted.
\<close>

theorem release_None_counterexample:
  "SharedObject_enter 1 (SharedObject (PyNone :: nat py)) =
     (Return PyNone, \<lparr>so_object = Some PyNone, so_rc = Some (getrefcount 1), so_exiting = None\<rparr>)
   \<and> getrefcount 5 > getrefcount 1
   \<and> SharedObject_release 5
        \<lparr>so_object = Some (PyNone :: nat py), so_rc = Some (getrefcount 1), so_exiting = None\<rparr> [] =
     (Return (), \<lparr>so_object = Some PyNone, so_rc = Some (getrefcount 1), so_exiting = None\<rparr>, [])"
  by (simp add: SharedObject_enter_def SharedObject_def SharedObject_release_def getrefcount_def)

text \<open>
  C8 (amended). For a wrapper around an object \<open>X\<close> other than \<open>None\<close>, entered when
  \<open>b\<close> references to \<open>X\<close> were held elsewhere: \<^verbatim>\<open>release()\<close> called when \<open>r\<close> references
  are held emits the leak warning (after a debug record) exactly when the count read at
  release exceeds the recorded baseline, and emits nothing otherwise; in both cases it
  returns normally with the attribute \<^verbatim>\<open>object\<close> deleted. The same holds for the exit of
  the context manager, whose warning carries stack level 3 instead of 2.
\<close>

theorem release_warns_iff_count_rose:
  assumes "so_object self = Some obj" and "obj \<noteq> PyNone"
  shows "\<exists>so. SharedObject_enter b self = (Return obj, so)
           \<and> so_rc so = Some (getrefcount b)
           \<and> SharedObject_release r (so\<lparr>so_exiting := None\<rparr>) evs =
                (Return (), so\<lparr>so_exiting := None, so_object := None\<rparr>,
                 if getrefcount r > getrefcount b then evs @ [LogDebug, ResourceWarning 2] else evs)
           \<and> SharedObject_exit r so evs =
                (Return (), so\<lparr>so_object := None, so_exiting := None\<rparr>,
                 if getrefcount r > getrefcount b then evs @ [LogDebug, ResourceWarning 3] else evs)"
proof -
  let ?so = "self\<lparr>so_rc := Some (getrefcount b)\<rparr>"
  have e: "SharedObject_enter b self = (Return obj, ?so)"
    using assms(1) by (simp add: SharedObject_enter_def)
  have o1: "so_object (?so\<lparr>so_exiting := None\<rparr>) = Some obj" using assms(1) by simp
  have o2: "so_object (?so\<lparr>so_exiting := Some True\<rparr>) = Some obj" using assms(1) by simp
  have r1: "SharedObject_release r (?so\<lparr>so_exiting := None\<rparr>) evs =
                (Return (), ?so\<lparr>so_exiting := None, so_object := None\<rparr>,
                 if getrefcount r > getrefcount b then evs @ [LogDebug, ResourceWarning 2] else evs)"
    using release_present [OF o1 assms(2), of r evs] by (simp add: getrefcount_def)
  have r2: "SharedObject_exit r ?so evs =
                (Return (), ?so\<lparr>so_object := None, so_exiting := None\<rparr>,
                 if getrefcount r > getrefcount b then evs @ [LogDebug, ResourceWarning 3] else evs)"
    using release_present [OF o2 assms(2), of r evs]
    by (simp add: SharedObject_exit_def getrefcount_def)
  from e r1 r2 show ?thesis by simp
qed

theorem release_warns_iff_count_rose_witness:
  "SharedObject_release 2 \<lparr>so_object = Some (PyObj (7::nat)), so_rc = Some (getrefcount 1), so_exiting = None\<rparr> [] =
     (Return (), \<lparr>so_object = None, so_rc = Some (getrefcount 1), so_exiting = None\<rparr>,
      [LogDebug, ResourceWarning 2])
   \<and> SharedObject_release 1 \<lparr>so_object = Some (PyObj (7::nat)), so_rc = Some (getrefcount 1), so_exiting = None\<rparr> [] =
     (Return (), \<lparr>so_object = None, so_rc = Some (getrefcount 1), so_exiting = None\<rparr>, [])"
  using release_warns_iff_count_rose [of "SharedObject (PyObj (7::nat))" "PyObj 7" 1 2 "[]"]
        release_warns_iff_count_rose [of "SharedObject (PyObj (7::nat))" "PyObj 7" 1 1 "[]"]
  by (simp add: SharedObject_def SharedObject_enter_def getrefcount_def)

section \<open>Properties of the store protocol\<close>

lemma enter_result:
  "BaseModelStore_enter self st =
     (Return self,
      \<lparr>act_count = (act_count st)(self := act_count st self + 1),
       active = active st @ [self],
       calls = calls st @ transition_calls self (act_count st self) (act_count st self + 1)\<rparr>)"
  if "0 \<le> act_count st self"
  using that by (simp add: BaseModelStore_enter_def transition_calls_def Let_def)

lemma exit_result:
  "BaseModelStore_exit self st =
     (Return (),
      \<lparr>act_count = (act_count st)(self := act_count st self - 1),
       active = stk,
       calls = calls st @ transition_calls self (act_count st self) (act_count st self - 1)\<rparr>)"
  if "1 \<le> act_count st self" and "active st = stk @ [self]"
  using that by (simp add: BaseModelStore_exit_def transition_calls_def Let_def)

lemma run_store_nested:
  assumes "act_count st self = int d"
    and "active st = base @ replicate d self"
    and "nested d ops"
  shows "\<exists>st'. run_store self ops st = (Return (), st')
             \<and> calls st' = calls st @ spec_calls self (int d) ops"
  using assms
proof (induction d ops arbitrary: st rule: nested.induct)
  case (1 d)
  then show ?case by simp
next
  case (2 d ops)
  let ?st1 = "\<lparr>act_count = (act_count st)(self := act_count st self + 1),
       active = active st @ [self],
       calls = calls st @ transition_calls self (act_count st self) (act_count st self + 1)\<rparr>"
  have e: "BaseModelStore_enter self st = (Return self, ?st1)"
    by (rule enter_result) (simp add: "2.prems")
  have c: "act_count ?st1 self = int (Suc d)" using "2.prems" by simp
  have a: "active ?st1 = base @ replicate (Suc d) self"
    using "2.prems" by (simp add: replicate_append_same)
  have n: "nested (Suc d) ops" using "2.prems" by simp
  from "2.IH" [OF c a n] obtain st' where
    r: "run_store self ops ?st1 = (Return (), st')"
    and k: "calls st' = calls ?st1 @ spec_calls self (int (Suc d)) ops" by blast
  have "run_store self (Enter # ops) st = (Return (), st')" using e r by simp
  moreover have "calls st' = calls st @ spec_calls self (int d) (Enter # ops)"
    using k "2.prems"(1) by (simp add: add.commute)
  ultimately show ?case by blast
next
  case (3 ops)
  then show ?case by simp
next
  case (4 d ops)
  let ?st1 = "\<lparr>act_count = (act_count st)(self := act_count st self - 1),
       active = base @ replicate d self,
       calls = calls st @ transition_calls self (act_count st self) (act_count st self - 1)\<rparr>"
  have stk: "active st = (base @ replicate d self) @ [self]"
    using "4.prems" by (simp add: replicate_append_same)
  have e: "BaseModelStore_exit self st = (Return (), ?st1)"
    by (rule exit_result) (simp_all add: "4.prems"(1) stk)
  have c: "act_count ?st1 self = int d" using "4.prems" by simp
  have a: "active ?st1 = base @ replicate d self" by simp
  have n: "nested d ops" using "4.prems" by simp
  from "4.IH" [OF c a n] obtain st' where
    r: "run_store self ops ?st1 = (Return (), st')"
    and k: "calls st' = calls ?st1 @ spec_calls self (int d) ops" by blast
  have "run_store self (Exit # ops) st = (Return (), st')" using e r by simp
  moreover have "calls st' = calls st @ spec_calls self (int (Suc d)) (Exit # ops)"
    using k "4.prems"(1) by simp
  ultimately show ?case by blast
qed

text \<open>
  C5. For every nested sequence of entries and exits of one store that starts with the
  activation count at zero (whatever other stores are on the activation stack), every
  operation returns normally and the calls of \<^verbatim>\<open>init()\<close> and \<^verbatim>\<open>shutdown()\<close> made
  are exactly those of the specification: one \<^verbatim>\<open>init()\<close> on each step of the count from
  zero to nonzero, one \<^verbatim>\<open>shutdown()\<close> on each step from nonzero to zero, none on the
  re-entrant steps in between.
\<close>

theorem enter_exit_hook_calls:
  assumes "act_count st self = 0" and "nested 0 ops"
  shows "\<exists>st'. run_store self ops st = (Return (), st')
             \<and> calls st' = calls st @ spec_calls self 0 ops"
  using run_store_nested [of st self 0 "active st" ops] assms by simp

theorem enter_exit_hook_calls_witness:
  "nested 0 [Enter, Enter, Exit, Exit, Enter, Exit]
   \<and> spec_calls 3 0 [Enter, Enter, Exit, Exit, Enter, Exit] = [Init 3, Shutdown 3, Init 3, Shutdown 3]
   \<and> (\<exists>st'. run_store 3 [Enter, Enter, Exit, Exit, Enter, Exit]
               \<lparr>act_count = (\<lambda>_. 0), active = [5], calls = []\<rparr> = (Return (), st')
           \<and> calls st' = [Init 3, Shutdown 3, Init 3, Shutdown 3])"
proof -
  have n: "nested 0 [Enter, Enter, Exit, Exit, Enter, Exit]" by simp
  have s: "spec_calls 3 0 [Enter, Enter, Exit, Exit, Enter, Exit] = [Init 3, Shutdown 3, Init 3, Shutdown 3]"
    by (simp add: transition_calls_def)
  have c: "act_count \<lparr>act_count = (\<lambda>_. 0), active = [5], calls = []\<rparr> 3 = 0" by simp
  from enter_exit_hook_calls [OF c n] s n show ?thesis by simp
qed

text \<open>
  C6. Exiting a store that is not the most recently pushed entry of the activation stack
  raises: \<^verbatim>\<open>AssertionError\<close> when another store is on top, \<^verbatim>\<open>IndexError\<close> when the
  stack is empty. Nothing is popped: the stack is left as it was.
\<close>

theorem exit_out_of_order_raises:
  assumes "active st = [] \<or> last (active st) \<noteq> self"
  shows "\<exists>st'. BaseModelStore_exit self st =
                 (Raise (if active st = [] then IndexError else AssertionError), st')
             \<and> active st' = active st"
  using assms by (auto simp add: BaseModelStore_exit_def Let_def)

theorem exit_out_of_order_raises_witness:
  "last (active \<lparr>act_count = (\<lambda>_. 1), active = [1, 2], calls = []\<rparr>) \<noteq> 1
   \<and> (\<exists>st'. BaseModelStore_exit 1 \<lparr>act_count = (\<lambda>_. 1), active = [1, 2], calls = []\<rparr> =
               (Raise AssertionError, st')
           \<and> active st' = [1, 2])"
  using exit_out_of_order_raises [of "\<lparr>act_count = (\<lambda>_. 1), active = [1, 2], calls = []\<rparr>" 1]
  by simp

text \<open>
  C9 fails on the code. With the flag \<^verbatim>\<open>binpickle\<close> true, \<^verbatim>\<open>put_serialized\<close> reads the
  name \<^verbatim>\<open>bpk\<close>, which nothing binds: it raises \<^verbatim>\<open>NameError\<close> before anything is
  loaded and before \<^verbatim>\<open>put_model\<close> is called, for every store, path and deserializer.
\<close>

theorem put_serialized_binpickle_NameError:
  "BaseModelStore_put_serialized put_model bpk_load pickle_load path True st =
     (Raise (NameError ''bpk''), st)"
  by (simp add: BaseModelStore_put_serialized_def name_bound_def put_serialized_locals_def
                module_globals_def)

lemma put_serialized_pickle:
  "pickle_load path = Inr m \<Longrightarrow>
   BaseModelStore_put_serialized put_model bpk_load pickle_load path False st = put_model m st"
  by (simp add: BaseModelStore_put_serialized_def)


section \<open>Properties of persisted models\<close>

subsection \<open>Closing\<close>

lemma bpk_close_returns:
  assumes "BPKPersisted_close self unlink w = (Return (), self', w')"
  shows "bpk_file self' = None \<and> (unlink \<longrightarrow> \<not> bpk_is_owner self')"
  using assms
  by (auto simp add: BPKPersisted_close_def BPKPersisted_close_file_def
           split: option.splits if_splits prod.splits outcome.splits)

lemma bpk_close_released:
  assumes "bpk_file self = None" and "\<not> bpk_is_owner self"
  shows "BPKPersisted_close self unlink w = (Return (), self, w)"
  using assms by (simp add: BPKPersisted_close_def BPKPersisted_close_file_def)

lemma shm_close_returns:
  assumes "SHMPersisted_close self unlink w = (Return (), self', w')"
  shows "shm_model self' = PyNone \<and> \<not> shm_is_owner self'"
  using assms
  by (auto simp add: SHMPersisted_close_def Let_def
           split: option.splits if_splits prod.splits outcome.splits)

lemma shm_close_released:
  assumes "shm_model self = PyNone" and "\<not> shm_is_owner self"
  shows "SHMPersisted_close self unlink w = (Return (), self, w)"
  using assms by (simp add: SHMPersisted_close_def Let_def)

text \<open>
  C3. For every handle of either strategy, in whatever state: once a call of
  \<^verbatim>\<open>close()\<close> has returned, the handle is not an owner, and a further call of
  \<^verbatim>\<open>close()\<close> (with either value of \<^verbatim>\<open>unlink\<close>) returns without an exception and
  changes neither the handle nor the world: no file is deleted and no segment closed or
  unlinked a second time.
\<close>

theorem close_twice_is_noop:
  assumes "PersistedModel_close h True w = (Return (), h', w')"
  shows "\<not> is_owner h' \<and> PersistedModel_close h' unlink w' = (Return (), h', w')"
proof (cases h)
  case (BPK b)
  with assms obtain b' where h': "h' = BPK b'"
    and c: "BPKPersisted_close b True w = (Return (), b', w')"
    by (auto split: prod.splits)
  from bpk_close_returns [OF c] have "bpk_file b' = None" and "\<not> bpk_is_owner b'" by simp_all
  then show ?thesis using h' by (simp add: bpk_close_released)
next
  case (SHM s)
  with assms obtain s' where h': "h' = SHM s'"
    and c: "SHMPersisted_close s True w = (Return (), s', w')"
    by (auto split: prod.splits)
  from shm_close_returns [OF c] have "shm_model s' = PyNone" and "\<not> shm_is_owner s'" by simp_all
  then show ?thesis using h' by (simp add: shm_close_released)
qed

theorem close_twice_is_noop_witness:
  "(\<exists>h' w'. PersistedModel_close (BPK (BPKPersisted (Path ''/tmp'' ''lkpy-a.bpk'') :: bytes bpk_persisted)) True
               (example_world\<lparr>fs := (\<lambda>_. None)(Path ''/tmp'' ''lkpy-a.bpk'' \<mapsto> [1, 2])\<rparr>) = (Return (), h', w')
           \<and> fs w' (Path ''/tmp'' ''lkpy-a.bpk'') = None
           \<and> PersistedModel_close h' True w' = (Return (), h', w'))
   \<and> (\<exists>h' w'. PersistedModel_close (SHM (SHMPersisted [] [(''a'', 2)] [''a''] :: bytes shm_persisted)) True
               (example_world\<lparr>shm_segs := (\<lambda>_. None)(''a'' \<mapsto> [1, 2, 0, 0])\<rparr>) = (Return (), h', w')
           \<and> shm_segs w' ''a'' = None
           \<and> PersistedModel_close h' True w' = (Return (), h', w'))"
proof -
  let ?hb = "BPK (BPKPersisted (Path ''/tmp'' ''lkpy-a.bpk'') :: bytes bpk_persisted)"
  let ?wb = "example_world\<lparr>fs := (\<lambda>_. None)(Path ''/tmp'' ''lkpy-a.bpk'' \<mapsto> [1, 2])\<rparr>"
  let ?hs = "SHM (SHMPersisted [] [(''a'', 2)] [''a''] :: bytes shm_persisted)"
  let ?ws = "example_world\<lparr>shm_segs := (\<lambda>_. None)(''a'' \<mapsto> [1, 2, 0, 0])\<rparr>"
  obtain hb' wb' where b: "PersistedModel_close ?hb True ?wb = (Return (), hb', wb')"
    and fb: "fs wb' (Path ''/tmp'' ''lkpy-a.bpk'') = None"
    by (simp add: BPKPersisted_def BPKPersisted_close_def BPKPersisted_close_file_def
                  path_unlink_def example_world_def)
  obtain hs' ws' where s: "PersistedModel_close ?hs True ?ws = (Return (), hs', ws')"
    and fs: "shm_segs ws' ''a'' = None"
    by (simp add: SHMPersisted_def SHMPersisted_close_def SharedMemory_close_def
                  SharedMemory_unlink_def example_world_def)
  from close_twice_is_noop [OF b, of True] close_twice_is_noop [OF s, of True] b s fb fs
  show ?thesis by blast
qed

subsection \<open>Transmission\<close>

lemma bpk_nonowner_close:
  assumes "\<not> bpk_is_owner self" and "BPKPersisted_close self unlink w = (r, self', w')"
  shows "\<not> bpk_is_owner self' \<and> fs w' = fs w \<and> shm_segs w' = shm_segs w"
  using assms
  by (auto simp add: BPKPersisted_close_def BPKPersisted_close_file_def
           split: option.splits if_splits)

lemma shm_nonowner_close:
  assumes "\<not> shm_is_owner self" and "SHMPersisted_close self unlink w = (r, self', w')"
  shows "\<not> shm_is_owner self' \<and> fs w' = fs w \<and> shm_segs w' = shm_segs w"
  using assms by (auto simp add: SHMPersisted_close_def Let_def)

lemma bpk_get_frame:
  assumes "BPKPersisted_get c self w = (r, self', w')"
  shows "bpk_is_owner self' = bpk_is_owner self \<and> bpk_path self' = bpk_path self \<and> w' = w"
  using assms
  by (auto simp add: BPKPersisted_get_def split: option.splits if_splits bp_read.splits)

lemma attach_all_frame:
  "attach_all p specs w = (r, w') \<Longrightarrow> fs w' = fs w \<and> shm_segs w' = shm_segs w"
proof (induction specs arbitrary: w r w')
  case Nil
  then show ?case by simp
next
  case (Cons a specs)
  obtain bn bs where a: "a = (bn, bs)" by (cases a)
  show ?case
  proof (cases "attach_all p specs (w\<lparr>evlog := evlog w @ [LogDebug]\<rparr>)")
    case (Pair r1 w1)
    from Cons.IH [OF Pair] have "fs w1 = fs w" and "shm_segs w1 = shm_segs w" by simp_all
    with Cons.prems a Pair show ?thesis
      by (auto split: if_splits option.splits outcome.splits prod.splits)
  qed
qed

lemma shm_get_frame:
  assumes "SHMPersisted_get c p self w = (r, self', w')"
  shows "shm_is_owner self' = shm_is_owner self \<and> fs w' = fs w \<and> shm_segs w' = shm_segs w"
proof (cases "attach_all p (shm_buffer_specs self) w")
  case (Pair r1 w1)
  from attach_all_frame [OF Pair] have "fs w1 = fs w" and "shm_segs w1 = shm_segs w" by simp_all
  with assms Pair show ?thesis
    by (auto simp add: SHMPersisted_get_def split: if_splits outcome.splits prod.splits sum.splits)
qed

lemma bpk_close_ids:
  "BPKPersisted_close self unlink w = (r, self', w') \<Longrightarrow> bpk_path self' = bpk_path self"
  by (auto simp add: BPKPersisted_close_def BPKPersisted_close_file_def
           split: option.splits if_splits prod.splits outcome.splits)

lemma shm_close_ids:
  "SHMPersisted_close self unlink w = (r, self', w') \<Longrightarrow>
   shm_pickle_data self' = shm_pickle_data self \<and> shm_buffer_specs self' = shm_buffer_specs self"
  by (auto simp add: SHMPersisted_close_def Let_def
           split: option.splits if_splits prod.splits outcome.splits)

lemma shm_get_ids:
  "SHMPersisted_get c p self w = (r, self', w') \<Longrightarrow>
   shm_pickle_data self' = shm_pickle_data self \<and> shm_buffer_specs self' = shm_buffer_specs self"
  by (auto simp add: SHMPersisted_get_def
           split: option.splits if_splits prod.splits outcome.splits sum.splits)

lemma nonowner_get:
  assumes "\<not> is_owner h" and "PersistedModel_get c p h w = (r, h', w')"
  shows "\<not> is_owner h' \<and> resource_ids h' = resource_ids h \<and> fs w' = fs w \<and> shm_segs w' = shm_segs w"
proof (cases h)
  case (BPK b)
  with assms(2) obtain b' where "h' = BPK b'" and "BPKPersisted_get c b w = (r, b', w')"
    by (auto split: prod.splits)
  with bpk_get_frame [of c b w r b' w'] assms(1) BPK show ?thesis by simp
next
  case (SHM s)
  with assms(2) obtain s' where "h' = SHM s'" and "SHMPersisted_get c p s w = (r, s', w')"
    by (auto split: prod.splits)
  with shm_get_frame [of c p s w r s' w'] shm_get_ids [of c p s w r s' w'] assms(1) SHM
  show ?thesis by simp
qed

lemma nonowner_close:
  assumes "\<not> is_owner h" and "PersistedModel_close h unlink w = (r, h', w')"
  shows "\<not> is_owner h' \<and> resource_ids h' = resource_ids h \<and> fs w' = fs w \<and> shm_segs w' = shm_segs w"
proof (cases h)
  case (BPK b)
  with assms(2) obtain b' where "h' = BPK b'" and "BPKPersisted_close b unlink w = (r, b', w')"
    by (auto split: prod.splits)
  with bpk_nonowner_close [of b unlink w r b' w'] bpk_close_ids [of b unlink w r b' w'] assms(1) BPK
  show ?thesis by simp
next
  case (SHM s)
  with assms(2) obtain s' where "h' = SHM s'" and "SHMPersisted_close s unlink w = (r, s', w')"
    by (auto split: prod.splits)
  with shm_nonowner_close [of s unlink w r s' w'] shm_close_ids [of s unlink w r s' w'] assms(1) SHM
  show ?thesis by simp
qed

lemma nonowner_use_handle:
  assumes "\<not> is_owner h" and "use_handle c p ops h w = (h', w')"
  shows "\<not> is_owner h' \<and> resource_ids h' = resource_ids h \<and> fs w' = fs w \<and> shm_segs w' = shm_segs w"
  using assms
proof (induction ops arbitrary: h w)
  case Nil
  then show ?case by simp
next
  case (Cons x ops)
  show ?case
  proof (cases x)
    case Get
    obtain r h1 w1 where g: "PersistedModel_get c p h w = (r, h1, w1)"
      by (cases "PersistedModel_get c p h w") auto
    from nonowner_get [OF Cons.prems(1) g]
    have 1: "\<not> is_owner h1" "resource_ids h1 = resource_ids h" "fs w1 = fs w" "shm_segs w1 = shm_segs w"
      by simp_all
    from Cons.prems(2) Get g have "use_handle c p ops h1 w1 = (h', w')" by simp
    from Cons.IH [OF 1(1) this] 1 show ?thesis by simp
  next
    case (Close u)
    obtain r h1 w1 where g: "PersistedModel_close h u w = (r, h1, w1)"
      by (cases "PersistedModel_close h u w") auto
    from nonowner_close [OF Cons.prems(1) g]
    have 1: "\<not> is_owner h1" "resource_ids h1 = resource_ids h" "fs w1 = fs w" "shm_segs w1 = shm_segs w"
      by simp_all
    from Cons.prems(2) Close g have "use_handle c p ops h1 w1 = (h', w')" by simp
    from Cons.IH [OF 1(1) this] 1 show ?thesis by simp
  qed
qed

lemma transmit_returns:
  assumes "transmit tr h = Return h'"
  shows "\<not> is_owner h' \<and> resource_ids h' = resource_ids h"
  using assms
  by (cases h)
     (auto simp add: BPKPersisted_getstate_def SHMPersisted_getstate_def SHMPersisted_setstate_def
           split: option.splits sum.splits)

lemma transmit_unopened:
  "transmit tr (SHM s) = Return (SHM (SHMPersisted_setstate (SHMPersisted_getstate s)))"
  "bpk_file b = None \<Longrightarrow> bpk_model b = PyNone \<Longrightarrow>
   transmit tr (BPK b) = Return (BPK (b\<lparr>bpk_is_owner := False\<rparr>))"
  by (simp_all add: BPKPersisted_getstate_def)

lemma transmit_opened_raises:
  "bpk_file b = Some f \<Longrightarrow> transmit tr (BPK b) = Raise TypeError"
  by (simp add: BPKPersisted_getstate_def)

text \<open>
  Where transmission yields a copy, the copy is as the specification asks: its
  ownership flag is false and its resource identifiers are those of the original, and
  whatever the receiving process then calls on it, \<^verbatim>\<open>get()\<close> and \<^verbatim>\<open>close()\<close> with
  either value of \<^verbatim>\<open>unlink\<close>, in any order and number, no file is deleted and no
  segment unlinked, and the copy never becomes an owner.
\<close>

lemma transmitted_copy_never_releases:
  assumes "transmit tr h = Return h'"
  shows "\<not> is_owner h'
   \<and> resource_ids h' = resource_ids h
   \<and> \<not> is_owner (fst (use_handle c p ops h' w))
   \<and> resource_ids (fst (use_handle c p ops h' w)) = resource_ids h
   \<and> fs (snd (use_handle c p ops h' w)) = fs w
   \<and> shm_segs (snd (use_handle c p ops h' w)) = shm_segs w"
proof -
  obtain h'' w' where u: "use_handle c p ops h' w = (h'', w')"
    by (cases "use_handle c p ops h' w") auto
  have n: "\<not> is_owner h'" using transmit_returns [OF assms] by simp
  from nonowner_use_handle [OF n u] transmit_returns [OF assms] u show ?thesis by simp
qed

text \<open>
  C4 fails on the code for a file-backed handle on which \<^verbatim>\<open>get()\<close> has run.
  \<^verbatim>\<open>BPKPersisted.__getstate__\<close> copies the whole instance dictionary, the open
  \<^verbatim>\<open>BinPickleFile\<close> and the cached model with it, where \<^verbatim>\<open>SHMPersisted.__getstate__\<close>
  hands over the identifiers only. Persisting a model to a file, getting it back and then
  serializing the handle raises \<^verbatim>\<open>TypeError\<close>: there is no copy.
\<close>

theorem transmit_after_get_raises:
  "\<exists>h w' h1 w1.
      persist_with example_codec (example_platform None False) (FileBacked None)
        (PyObj [1, 2]) example_world = (Return h, w')
    \<and> PersistedModel_get example_codec (example_platform None False) h w'
        = (Return (PyObj [1, 2]), h1, w1)
    \<and> transmit tr h1 = Raise TypeError"
  by (simp add: example_codec_def example_platform_def example_world_def
                persist_binpickle_def mkstemp_def sharing_mode_def save_mode_def
                BPKPersisted_def BPKPersisted_get_def BPKPersisted_getstate_def)

subsection \<open>Failures during teardown\<close>

text \<open>
  C7 fails on the code. An owner of a file whose deletion the operating system refuses
  gets the \<^verbatim>\<open>PermissionError\<close> of \<^verbatim>\<open>path.unlink()\<close> raised by \<^verbatim>\<open>close()\<close>, and
  nothing is logged. An owner of two segments, the first of which can not be unlinked,
  gets the exception raised by \<^verbatim>\<open>close()\<close>, nothing is logged, and the second segment
  is left in place.
\<close>

theorem close_raises_counterexample:
  "BPKPersisted_close (BPKPersisted (Path ''/tmp'' ''lkpy-a.bpk'') :: bytes bpk_persisted) True
      (example_world\<lparr>fs := (\<lambda>_. None)(Path ''/tmp'' ''lkpy-a.bpk'' \<mapsto> [1, 2]),
                     faults := (\<lambda>_. None)(UnlinkFile (Path ''/tmp'' ''lkpy-a.bpk'') \<mapsto> PermissionError)\<rparr>)
     = (Raise PermissionError, BPKPersisted (Path ''/tmp'' ''lkpy-a.bpk''),
        example_world\<lparr>fs := (\<lambda>_. None)(Path ''/tmp'' ''lkpy-a.bpk'' \<mapsto> [1, 2]),
                     faults := (\<lambda>_. None)(UnlinkFile (Path ''/tmp'' ''lkpy-a.bpk'') \<mapsto> PermissionError)\<rparr>)
   \<and> SHMPersisted_close (SHMPersisted [] [(''a'', 2), (''b'', 1)] [''a'', ''b''] :: bytes shm_persisted) True
      (example_world\<lparr>shm_segs := (\<lambda>_. None)(''a'' \<mapsto> [1, 2], ''b'' \<mapsto> [3]),
                     faults := (\<lambda>_. None)(UnlinkSeg ''a'' \<mapsto> PermissionError)\<rparr>)
     = (Raise PermissionError, SHMPersisted [] [(''a'', 2), (''b'', 1)] [''a'', ''b''],
        example_world\<lparr>shm_segs := (\<lambda>_. None)(''a'' \<mapsto> [1, 2], ''b'' \<mapsto> [3]),
                     faults := (\<lambda>_. None)(UnlinkSeg ''a'' \<mapsto> PermissionError)\<rparr>)"
  by (simp add: BPKPersisted_close_def BPKPersisted_close_file_def BPKPersisted_def path_unlink_def
                SHMPersisted_close_def SHMPersisted_def SharedMemory_close_def SharedMemory_unlink_def
                example_world_def)

text \<open>
  C7 (amended). For a file-backed handle whose mapped file is open, an error of the
  \<open>OSError\<close> family raised when closing that file is logged as a warning and is not
  raised; \<^verbatim>\<open>close()\<close> goes on with the rest of its teardown: it clears the cached model
  and the file handle, and, when the handle is the owner and \<^verbatim>\<open>unlink\<close> is true, it
  unlinks the path and gives up ownership (the outcome of that unlinking being the outcome
  of \<^verbatim>\<open>close()\<close>).
\<close>

theorem close_file_error_logged:
  assumes "bpk_file self = Some f" and "faults w (CloseFile f) = Some e" and "is_IOError e"
  shows "BPKPersisted_close_file self w =
           (Return (), self\<lparr>bpk_model := PyNone, bpk_file := None\<rparr>,
            w\<lparr>evlog := evlog w @ [LogWarn e]\<rparr>)
       \<and> BPKPersisted_close self unlink w =
           (if bpk_is_owner self \<and> unlink
            then case path_unlink (bpk_path self) (w\<lparr>evlog := evlog w @ [LogWarn e]\<rparr>) of
                   (Raise e', w') \<Rightarrow> (Raise e', self\<lparr>bpk_model := PyNone, bpk_file := None\<rparr>, w')
                 | (Return _, w') \<Rightarrow>
                     (Return (), self\<lparr>bpk_model := PyNone, bpk_file := None, bpk_is_owner := False\<rparr>, w')
            else (Return (), self\<lparr>bpk_model := PyNone, bpk_file := None\<rparr>,
                  w\<lparr>evlog := evlog w @ [LogWarn e]\<rparr>))"
  using assms
  by (auto simp add: BPKPersisted_close_def BPKPersisted_close_file_def
           split: prod.splits outcome.splits)

theorem close_file_error_logged_witness:
  "\<exists>h' w'. BPKPersisted_close
       \<lparr>bpk_path = Path ''/tmp'' ''lkpy-a.bpk'', bpk_is_owner = True,
        bpk_file = Some (Path ''/tmp'' ''lkpy-a.bpk''), bpk_model = PyObj ([1, 2] :: bytes)\<rparr> True
       (example_world\<lparr>fs := (\<lambda>_. None)(Path ''/tmp'' ''lkpy-a.bpk'' \<mapsto> [1, 2]),
                      faults := (\<lambda>_. None)(CloseFile (Path ''/tmp'' ''lkpy-a.bpk'') \<mapsto> OSError)\<rparr>)
     = (Return (), h', w')
     \<and> evlog w' = [LogWarn OSError] \<and> fs w' (Path ''/tmp'' ''lkpy-a.bpk'') = None
     \<and> \<not> bpk_is_owner h' \<and> bpk_file h' = None"
  using close_file_error_logged
     [of "\<lparr>bpk_path = Path ''/tmp'' ''lkpy-a.bpk'', bpk_is_owner = True,
        bpk_file = Some (Path ''/tmp'' ''lkpy-a.bpk''), bpk_model = PyObj ([1, 2] :: bytes)\<rparr>"
       "Path ''/tmp'' ''lkpy-a.bpk''"
       "example_world\<lparr>fs := (\<lambda>_. None)(Path ''/tmp'' ''lkpy-a.bpk'' \<mapsto> [1, 2]),
                      faults := (\<lambda>_. None)(CloseFile (Path ''/tmp'' ''lkpy-a.bpk'') \<mapsto> OSError)\<rparr>"
       OSError True]
  by (simp add: path_unlink_def example_world_def)

subsection \<open>Persisting\<close>

lemma draw_name_unused:
  "draw_name used ts = Some (t, ts') \<Longrightarrow> \<not> used t"
  by (induction ts) (auto split: if_splits)

lemma share_context_set [simp]:
  "in_share_context (w\<lparr>mode := Some ''share''\<rparr>)"
  by (simp add: in_share_context_def save_mode_def)

lemma persist_binpickle_returns:
  assumes "persist_binpickle c p model dir w = (Return h, w')"
  shows "\<exists>f bs. h = BPKPersisted f
            \<and> dirname f = (case dir of None \<Rightarrow> gettempdir p | Some d \<Rightarrow> d)
            \<and> bp_dump c True model = Inr bs
            \<and> fs w' f = Some bs
            \<and> shm_segs w' = shm_segs w"
  using assms
  by (auto simp add: persist_binpickle_def mkstemp_def sharing_mode_def
           split: option.splits prod.splits outcome.splits sum.splits)

lemma SharedMemory_create_frame:
  "SharedMemory_create p n w = (r, w') \<Longrightarrow> fs w' = fs w"
  by (auto simp add: SharedMemory_create_def split: if_splits option.splits)

lemma buf_cb_frame:
  "buf_cb p ba acc w = (r, w') \<Longrightarrow> fs w' = fs w"
  by (auto simp add: buf_cb_def blit_def split: prod.splits outcome.splits
           dest: SharedMemory_create_frame)

lemma run_buf_cb_frame:
  "run_buf_cb p bas acc w = (r, w') \<Longrightarrow> fs w' = fs w"
proof (induction bas arbitrary: acc w)
  case Nil
  then show ?case by simp
next
  case (Cons ba bas)
  obtain r1 w1 where b: "buf_cb p ba acc w = (r1, w1)" by (cases "buf_cb p ba acc w") auto
  have f: "fs w1 = fs w" using buf_cb_frame [OF b] .
  show ?case
  proof (cases r1)
    case (Return acc1)
    with Cons.prems b have "run_buf_cb p bas acc1 w1 = (r, w')" by simp
    from Cons.IH [OF this] f show ?thesis by simp
  next
    case (Raise e)
    with Cons.prems b f show ?thesis by simp
  qed
qed

lemma persist_shm_frame:
  assumes "persist_shm c p model w = (r, w')"
  shows "fs w' = fs w"
proof (cases "shm_available p")
  case False
  with assms show ?thesis by (simp add: persist_shm_def)
next
  case True
  obtain bufs d where k: "pk_dumps c True model = (bufs, d)" by (cases "pk_dumps c True model") auto
  obtain r1 w1 where b: "run_buf_cb p bufs ([], []) (w\<lparr>mode := Some ''share''\<rparr>) = (r1, w1)"
    by (cases "run_buf_cb p bufs ([], []) (w\<lparr>mode := Some ''share''\<rparr>)") auto
  have "fs w1 = fs w" using run_buf_cb_frame [OF b] by simp
  with assms True k b show ?thesis
    by (auto simp add: persist_shm_def sharing_mode_def
             split: prod.splits outcome.splits sum.splits)
qed

text \<open>
  C2 fails on the code as far as an explicit argument goes: \<^verbatim>\<open>persist\<close> has the model
  as its only parameter, so a call that passes a directory, by position or by keyword,
  raises \<^verbatim>\<open>TypeError\<close> and returns no handle, file-backed or other.
\<close>

theorem persist_explicit_dir_counterexample:
  "persist_call example_codec (example_platform None True)
      [PyObj [1, 2], PyStr ''/scratch''] [] example_world = (Raise TypeError, example_world)
   \<and> persist_call example_codec (example_platform None True)
      [PyObj [1, 2]] [(''dir'', PyStr ''/scratch'')] example_world = (Raise TypeError, example_world)"
  by (simp add: persist_call_def)

text \<open>
  C2 (amended). Whenever \<^verbatim>\<open>persist(model)\<close> returns a handle: if the environment
  variable \<^verbatim>\<open>LK_TEMP_DIR\<close> is set, the handle is file-backed, its file is in that
  directory and exists, and no segment was created; otherwise, if shared memory is
  available, the handle is a shared-memory handle and no file was created; otherwise the
  handle is file-backed and its file is in the system default temporary directory.
\<close>

theorem persist_strategy_order:
  assumes "persist c p model w = (Return h, w')"
  shows "case environ p ''LK_TEMP_DIR'' of
           Some lk_tmp \<Rightarrow>
             (\<exists>b. h = BPK b \<and> bpk_is_owner b \<and> dirname (bpk_path b) = lk_tmp
                  \<and> fs w' (bpk_path b) \<noteq> None \<and> shm_segs w' = shm_segs w)
         | None \<Rightarrow>
             if shm_available p
             then (\<exists>s. h = SHM s \<and> shm_is_owner s \<and> fs w' = fs w)
             else (\<exists>b. h = BPK b \<and> bpk_is_owner b \<and> dirname (bpk_path b) = gettempdir p
                      \<and> fs w' (bpk_path b) \<noteq> None \<and> shm_segs w' = shm_segs w)"
proof (cases "environ p ''LK_TEMP_DIR''")
  case (Some lk_tmp)
  with assms obtain b where h: "h = BPK b"
    and pb: "persist_binpickle c p model (Some lk_tmp) w = (Return b, w')"
    by (auto simp add: persist_def split: prod.splits outcome.splits)
  from persist_binpickle_returns [OF pb] h Some show ?thesis
    by (auto simp add: BPKPersisted_def)
next
  case None
  show ?thesis
  proof (cases "shm_available p")
    case True
    with assms None obtain s where h: "h = SHM s"
      and ps: "persist_shm c p model w = (Return s, w')"
      by (auto simp add: persist_def split: prod.splits outcome.splits)
    have "shm_is_owner s" using ps True
      by (auto simp add: persist_shm_def sharing_mode_def SHMPersisted_def
               split: prod.splits outcome.splits sum.splits)
    with persist_shm_frame [OF ps] h None True show ?thesis by simp
  next
    case False
    with assms None obtain b where h: "h = BPK b"
      and pb: "persist_binpickle c p model None w = (Return b, w')"
      by (auto simp add: persist_def split: prod.splits outcome.splits)
    from persist_binpickle_returns [OF pb] h None False show ?thesis
      by (auto simp add: BPKPersisted_def)
  qed
qed

theorem persist_strategy_order_witness:
  "(\<exists>w'. persist example_codec (example_platform (Some ''/scratch'') True) (PyObj [1, 2]) example_world
            = (Return (BPK (BPKPersisted (Path ''/scratch'' ''lkpy-a.bpk''))), w')
         \<and> fs w' (Path ''/scratch'' ''lkpy-a.bpk'') \<noteq> None)
   \<and> (\<exists>w'. persist example_codec (example_platform None True) (PyObj [1, 2]) example_world
            = (Return (SHM (SHMPersisted [] [(''a'', length [1, 2 :: 8 word])] [''a''])), w')
         \<and> fs w' = fs example_world)
   \<and> (\<exists>w'. persist example_codec (example_platform None False) (PyObj [1, 2]) example_world
            = (Return (BPK (BPKPersisted (Path ''/tmp'' ''lkpy-a.bpk''))), w')
         \<and> fs w' (Path ''/tmp'' ''lkpy-a.bpk'') \<noteq> None)"
proof -
  obtain w1 where e1:
    "persist example_codec (example_platform (Some ''/scratch'') True) (PyObj [1, 2]) example_world
       = (Return (BPK (BPKPersisted (Path ''/scratch'' ''lkpy-a.bpk''))), w1)"
    by (simp add: persist_def example_codec_def example_platform_def example_world_def
                  persist_binpickle_def mkstemp_def sharing_mode_def save_mode_def)
  obtain w2 where e2:
    "persist example_codec (example_platform None True) (PyObj [1, 2]) example_world
       = (Return (SHM (SHMPersisted [] [(''a'', length [1, 2 :: 8 word])] [''a''])), w2)"
    by (simp add: persist_def example_codec_def example_platform_def example_world_def
                  persist_shm_def SharedMemory_create_def sharing_mode_def save_mode_def
                  buf_cb_def blit_def)
  obtain w3 where e3:
    "persist example_codec (example_platform None False) (PyObj [1, 2]) example_world
       = (Return (BPK (BPKPersisted (Path ''/tmp'' ''lkpy-a.bpk''))), w3)"
    by (simp add: persist_def example_codec_def example_platform_def example_world_def
                  persist_binpickle_def mkstemp_def sharing_mode_def save_mode_def)
  have f1: "fs w1 (Path ''/scratch'' ''lkpy-a.bpk'') \<noteq> None"
    using persist_strategy_order [OF e1] by (simp add: example_platform_def BPKPersisted_def)
  have f2: "fs w2 = fs example_world"
    using persist_strategy_order [OF e2] by (simp add: example_platform_def)
  have f3: "fs w3 (Path ''/tmp'' ''lkpy-a.bpk'') \<noteq> None"
    using persist_strategy_order [OF e3] by (simp add: example_platform_def BPKPersisted_def)
  from e1 e2 e3 f1 f2 f3 show ?thesis by blast
qed

subsection \<open>Getting back what was persisted\<close>

lemma buf_cb_returns:
  assumes "buf_cb p ba acc w = (Return acc1, w1)"
  shows "\<exists>t. shm_segs w t = None
           \<and> acc1 = (fst acc @ [t], snd acc @ [(t, length ba)])
           \<and> shm_segs w1 = (shm_segs w)(t \<mapsto> ba @ replicate (seg_slack p (length ba)) 0)"
proof -
  from assms obtain t ts where
    d: "draw_name (\<lambda>t. shm_segs w t \<noteq> None) (names w) = Some (t, ts)"
    by (auto simp add: buf_cb_def SharedMemory_create_def split: if_splits option.splits)
  from draw_name_unused [OF d] have fresh: "shm_segs w t = None" by simp
  from assms d have "acc1 = (fst acc @ [t], snd acc @ [(t, length ba)])"
    and "shm_segs w1 = (shm_segs w)(t \<mapsto> ba @ replicate (seg_slack p (length ba)) 0)"
    by (auto simp add: buf_cb_def SharedMemory_create_def blit_def split: if_splits)
  with fresh show ?thesis by blast
qed

lemma run_buf_cb_returns:
  assumes "run_buf_cb p bufs acc w = (Return acc1, w1)" and "shm_available p"
  shows "\<exists>new. fst acc1 = fst acc @ map fst new
             \<and> snd acc1 = snd acc @ new
             \<and> (\<forall>t. shm_segs w t \<noteq> None \<longrightarrow> shm_segs w1 t = shm_segs w t)
             \<and> (\<forall>w2. shm_segs w2 = shm_segs w1 \<longrightarrow>
                  (\<exists>w3. attach_all p new w2 = (Return (bufs, map fst new), w3)))"
  using assms(1)
proof (induction bufs arbitrary: acc w)
  case Nil
  then have "acc1 = acc" and "w1 = w" by simp_all
  then show ?case by (intro exI [of _ "[]"]) simp
next
  case (Cons ba bufs)
  obtain r w' where b: "buf_cb p ba acc w = (r, w')" by (cases "buf_cb p ba acc w") auto
  with Cons.prems obtain acc' where r: "r = Return acc'"
    by (cases r) auto
  with Cons.prems b have rest: "run_buf_cb p bufs acc' w' = (Return acc1, w1)" by simp
  from buf_cb_returns [OF b [unfolded r]] obtain t where
    fresh: "shm_segs w t = None"
    and acc': "acc' = (fst acc @ [t], snd acc @ [(t, length ba)])"
    and segs': "shm_segs w' = (shm_segs w)(t \<mapsto> ba @ replicate (seg_slack p (length ba)) 0)"
    by blast
  from Cons.IH [OF rest] obtain new where
    n1: "fst acc1 = fst acc' @ map fst new"
    and n2: "snd acc1 = snd acc' @ new"
    and keep: "\<forall>t. shm_segs w' t \<noteq> None \<longrightarrow> shm_segs w1 t = shm_segs w' t"
    and att: "\<forall>w2. shm_segs w2 = shm_segs w1 \<longrightarrow>
                  (\<exists>w3. attach_all p new w2 = (Return (bufs, map fst new), w3))"
    by blast
  let ?new = "(t, length ba) # new"
  have t1: "shm_segs w1 t = Some (ba @ replicate (seg_slack p (length ba)) 0)"
    using keep segs' by simp
  have k: "\<forall>u. shm_segs w u \<noteq> None \<longrightarrow> shm_segs w1 u = shm_segs w u"
  proof (intro allI impI)
    fix u assume u: "shm_segs w u \<noteq> None"
    then have "u \<noteq> t" using fresh by auto
    then have "shm_segs w' u = shm_segs w u" using segs' by simp
    with keep u show "shm_segs w1 u = shm_segs w u" by simp
  qed
  have a: "\<forall>w2. shm_segs w2 = shm_segs w1 \<longrightarrow>
                  (\<exists>w3. attach_all p ?new w2 = (Return (ba # bufs, map fst ?new), w3))"
  proof (intro allI impI)
    fix w2 :: world assume w2: "shm_segs w2 = shm_segs w1"
    then have "shm_segs (w2\<lparr>evlog := evlog w2 @ [LogDebug]\<rparr>) = shm_segs w1" by simp
    with att obtain w3 where
      "attach_all p new (w2\<lparr>evlog := evlog w2 @ [LogDebug]\<rparr>) = (Return (bufs, map fst new), w3)"
      by blast
    then show "\<exists>w3. attach_all p ?new w2 = (Return (ba # bufs, map fst ?new), w3)"
      using w2 t1 assms(2) by simp
  qed
  have "fst acc1 = fst acc @ map fst ?new" using n1 acc' by simp
  moreover have "snd acc1 = snd acc @ ?new" using n2 acc' by simp
  ultimately show ?case using k a by blast
qed

lemma persist_shm_returns:
  assumes "persist_shm c p model w = (Return h, w')"
  shows "\<exists>bufs data keys blocks.
            pk_dumps c True model = (bufs, Inr data)
          \<and> h = SHMPersisted data keys blocks
          \<and> shm_available p
          \<and> (\<exists>w3. attach_all p keys w' = (Return (bufs, map fst keys), w3))"
proof -
  have av: "shm_available p" using assms by (auto simp add: persist_shm_def split: if_splits)
  obtain bufs d where k: "pk_dumps c True model = (bufs, d)" by (cases "pk_dumps c True model") auto
  obtain r1 w1 where b: "run_buf_cb p bufs ([], []) (w\<lparr>mode := Some ''share''\<rparr>) = (r1, w1)"
    by (cases "run_buf_cb p bufs ([], []) (w\<lparr>mode := Some ''share''\<rparr>)") auto
  from assms av k b obtain blocks keys data where
    r1: "r1 = Return (blocks, keys)" and d: "d = Inr data"
    and h: "h = SHMPersisted data keys blocks"
    and w': "shm_segs w' = shm_segs w1"
    by (auto simp add: persist_shm_def sharing_mode_def
             split: prod.splits outcome.splits sum.splits)
  from run_buf_cb_returns [OF b [unfolded r1] av] obtain new where
    "keys = new"
    and "\<forall>w2. shm_segs w2 = shm_segs w1 \<longrightarrow>
                  (\<exists>w3. attach_all p new w2 = (Return (bufs, map fst new), w3))"
    by auto
  with w' have "\<exists>w3. attach_all p keys w' = (Return (bufs, map fst keys), w3)" by blast
  with k d h av show ?thesis by blast
qed

text \<open>
  C1. With serializers that give back what they were given, for every object and both
  strategies: whenever persisting the object returns a handle, \<^verbatim>\<open>get()\<close> on that
  handle, in the same process and in the world that persisting left, returns normally and
  returns the object that was persisted.
\<close>

theorem persist_get_roundtrip:
  assumes "codec_roundtrip c" and "persist_with c p s model w = (Return h, w')"
  shows "\<exists>h'' w''. PersistedModel_get c p h w' = (Return model, h'', w'')"
proof (cases s)
  case (FileBacked dir)
  with assms(2) obtain b where h: "h = BPK b"
    and pb: "persist_binpickle c p model dir w = (Return b, w')"
    by (auto split: prod.splits outcome.splits)
  from persist_binpickle_returns [OF pb] obtain f bs where
    b: "b = BPKPersisted f" and d: "bp_dump c True model = Inr bs" and f: "fs w' f = Some bs"
    by blast
  from assms(1) d have "bp_load c bs = Loaded model" by (simp add: codec_roundtrip_def)
  with h b f show ?thesis by (simp add: BPKPersisted_get_def BPKPersisted_def)
next
  case SharedMemory
  with assms(2) obtain m where h: "h = SHM m"
    and ps: "persist_shm c p model w = (Return m, w')"
    by (auto split: prod.splits outcome.splits)
  from persist_shm_returns [OF ps] obtain bufs data keys blocks w3 where
    d: "pk_dumps c True model = (bufs, Inr data)"
    and m: "m = SHMPersisted data keys blocks"
    and a: "attach_all p keys w' = (Return (bufs, map fst keys), w3)"
    by blast
  from assms(1) d have "pk_loads c data bufs = Inr model" by (simp add: codec_roundtrip_def)
  with h m a show ?thesis by (simp add: SHMPersisted_get_def SHMPersisted_def)
qed

lemma example_codec_roundtrip: "codec_roundtrip example_codec"
  by (auto simp add: codec_roundtrip_def example_codec_def split: py.splits)

theorem persist_get_roundtrip_witness:
  "codec_roundtrip example_codec
   \<and> (\<exists>h w'. persist_with example_codec (example_platform None True) SharedMemory
                 (PyObj [1, 2]) example_world = (Return h, w')
            \<and> (\<exists>h'' w''. PersistedModel_get example_codec (example_platform None True) h w'
                           = (Return (PyObj [1, 2]), h'', w'')))
   \<and> (\<exists>h w'. persist_with example_codec (example_platform None True) (FileBacked None)
                 (PyObj [1, 2]) example_world = (Return h, w')
            \<and> (\<exists>h'' w''. PersistedModel_get example_codec (example_platform None True) h w'
                           = (Return (PyObj [1, 2]), h'', w'')))"
proof -
  obtain h1 w1 where e1:
    "persist_with example_codec (example_platform None True) SharedMemory (PyObj [1, 2]) example_world
       = (Return h1, w1)"
    by (simp add: example_codec_def example_platform_def example_world_def
                  persist_shm_def SharedMemory_create_def sharing_mode_def save_mode_def
                  buf_cb_def blit_def)
  obtain h2 w2 where e2:
    "persist_with example_codec (example_platform None True) (FileBacked None) (PyObj [1, 2]) example_world
       = (Return h2, w2)"
    by (simp add: example_codec_def example_platform_def example_world_def
                  persist_binpickle_def mkstemp_def sharing_mode_def save_mode_def)
  from persist_get_roundtrip [OF example_codec_roundtrip e1]
       persist_get_roundtrip [OF example_codec_roundtrip e2]
       example_codec_roundtrip e1 e2
  show ?thesis by blast
qed

end
